theory Spec2Isabelle
  imports Complex_Main "HOL-Library.AList"
begin

section \<open>Python values shared by the modules\<close>

text \<open>
  Every \<^verbatim>\<open>raise\<close>, failed \<^verbatim>\<open>assert\<close> and failed subscript of the modelled
  functions is a value of \<open>error\<close>; a function that can fail returns \<open>error + 'a\<close>
  with \<open>Inl\<close> for the exception.
\<close>

datatype error =
    KeyError
  | AssertionError
  | RuntimeError
  | AttributeError
  | StopExecutingException

text \<open>
  A Python \<^verbatim>\<open>dict\<close> is an association list in insertion order. \<open>map_of\<close> is
  the subscript, \<open>AList.update\<close> is \<^verbatim>\<open>d[k] = v\<close> (an existing key keeps its
  position, a new key goes to the end) and \<open>AList.delete\<close> is \<^verbatim>\<open>d.pop(k)\<close>.
  The keys of a real \<^verbatim>\<open>dict\<close> are distinct.
\<close>

type_synonym ('k, 'v) dict = "('k \<times> 'v) list"

definition keys :: "('k, 'v) dict \<Rightarrow> 'k set" where
  "keys d = fst ` set d"

definition getitem :: "('k, 'v) dict \<Rightarrow> 'k \<Rightarrow> error + 'v" where
  "getitem d k = (case map_of d k of None \<Rightarrow> Inl KeyError | Some v \<Rightarrow> Inr v)"

text \<open>\<^verbatim>\<open>d |= other\<close>: the items of \<open>other\<close> are stored into \<open>d\<close> one by one.\<close>

definition dict_ior :: "('k, 'v) dict \<Rightarrow> ('k, 'v) dict \<Rightarrow> ('k, 'v) dict" where
  "dict_ior d other = fold (\<lambda>(k, v). AList.update k v) other d"


section \<open>topology/cs\_endpoint.py\<close>

text \<open>
  Modelled from the spec: \<^verbatim>\<open>CentralTopology\<close> (topology/central\_topology.py is
  not among the sources). The spec gives it a fixed worker count and one inbound and
  one outbound FIFO channel per worker, routed by worker id; an id without a channel
  pair cannot be routed, which the model reports as \<open>KeyError\<close>.
\<close>

record 'a central_topology =
  worker_num :: nat
  server_to_worker :: "int \<Rightarrow> 'a list"
  worker_to_server :: "int \<Rightarrow> 'a list"

text \<open>Modelled from the spec: the worker ids that have a channel pair.\<close>

definition valid_worker_id :: "'a central_topology \<Rightarrow> int \<Rightarrow> bool" where
  "valid_worker_id t worker_id \<longleftrightarrow> 0 \<le> worker_id \<and> worker_id < int (worker_num t)"

text \<open>
  Modelled from the spec: \<^verbatim>\<open>CentralTopology.send_to_worker\<close>, which appends to the
  channel from the server to that worker.
\<close>

definition send_to_worker :: "'a central_topology \<Rightarrow> 'a \<Rightarrow> int \<Rightarrow> error + 'a central_topology" where
  "send_to_worker t data worker_id =
     (if valid_worker_id t worker_id
      then Inr (t\<lparr>server_to_worker :=
                   (server_to_worker t)(worker_id := server_to_worker t worker_id @ [data])\<rparr>)
      else Inl KeyError)"

text \<open>
  Modelled from the spec: \<^verbatim>\<open>CentralTopology.send_to_server\<close>, which appends to the
  channel from that worker to the server.
\<close>

definition send_to_server :: "'a central_topology \<Rightarrow> int \<Rightarrow> 'a \<Rightarrow> error + 'a central_topology" where
  "send_to_server t worker_id data =
     (if valid_worker_id t worker_id
      then Inr (t\<lparr>worker_to_server :=
                   (worker_to_server t)(worker_id := worker_to_server t worker_id @ [data])\<rparr>)
      else Inl KeyError)"

text \<open>\<^verbatim>\<open>ServerEndpoint.send\<close>: one single send, delegated to the topology.\<close>

definition ServerEndpoint_send :: "'a central_topology \<Rightarrow> 'a \<Rightarrow> int \<Rightarrow> error + 'a central_topology" where
  "ServerEndpoint_send t data worker_id = send_to_worker t data worker_id"

text \<open>
  The \<^verbatim>\<open>for worker_id in worker_ids: self.send(data, worker_id)\<close> loop of
  \<^verbatim>\<open>ServerEndpoint.broadcast\<close>; an exception of a send leaves the loop.
\<close>

fun send_each :: "'a central_topology \<Rightarrow> 'a \<Rightarrow> int list \<Rightarrow> error + 'a central_topology" where
  "send_each t data [] = Inr t"
| "send_each t data (worker_id # rest) =
     (case ServerEndpoint_send t data worker_id of
        Inl e \<Rightarrow> Inl e
      | Inr t' \<Rightarrow> send_each t' data rest)"

text \<open>
  \<^verbatim>\<open>ServerEndpoint.broadcast(data, worker_ids=None)\<close>. \<open>worker_ids\<close> is
  \<open>None\<close> or the elements of the list or set that was passed. Python iterates the
  resulting set in an order it does not specify; the model takes the ascending one,
  and \<open>send_each_any_order\<close> below shows that the order does not matter.
\<close>

definition ServerEndpoint_broadcast ::
  "'a central_topology \<Rightarrow> 'a \<Rightarrow> int list option \<Rightarrow> error + 'a central_topology" where
  "ServerEndpoint_broadcast t data worker_ids =
     (let all_worker_ids = {0 ..< int (worker_num t)};
          worker_ids' = (case worker_ids of
                           None \<Rightarrow> all_worker_ids
                         | Some ws \<Rightarrow> set ws \<inter> all_worker_ids)
      in send_each t data (sorted_list_of_set worker_ids'))"

text \<open>
  Modelled from the spec: \<^verbatim>\<open>CentralTopology.get_from_server\<close>, the blocking receive
  from a worker's FIFO channel. The channel holds everything the server sends to this
  worker; on an empty channel the receive never returns, which is \<open>None\<close>.
\<close>

definition get_from_server ::
  "'a central_topology \<Rightarrow> int \<Rightarrow> (error + 'a \<times> 'a central_topology) option" where
  "get_from_server t worker_id =
     (if \<not> valid_worker_id t worker_id then Some (Inl KeyError)
      else (case server_to_worker t worker_id of
              [] \<Rightarrow> None
            | x # rest \<Rightarrow>
                Some (Inr (x, t\<lparr>server_to_worker := (server_to_worker t)(worker_id := rest)\<rparr>))))"

text \<open>\<^verbatim>\<open>ClientEndpoint.get\<close> and \<^verbatim>\<open>ClientEndpoint.send\<close> of topology/cs\_endpoint.py.\<close>

definition ClientEndpoint_get ::
  "'a central_topology \<Rightarrow> int \<Rightarrow> (error + 'a \<times> 'a central_topology) option" where
  "ClientEndpoint_get t worker_id = get_from_server t worker_id"

definition ClientEndpoint_send ::
  "'a central_topology \<Rightarrow> int \<Rightarrow> 'a \<Rightarrow> error + 'a central_topology" where
  "ClientEndpoint_send t worker_id data = send_to_server t worker_id data"

text \<open>The topology after one more copy of \<open>data\<close> went to every worker of \<open>A\<close>.\<close>

definition delivered :: "'a central_topology \<Rightarrow> 'a \<Rightarrow> int set \<Rightarrow> 'a central_topology" where
  "delivered t data A =
     t\<lparr>server_to_worker :=
         (\<lambda>i. if i \<in> A then server_to_worker t i @ [data] else server_to_worker t i)\<rparr>"


section \<open>server/multiround\_shapley\_value\_server.py\<close>

text \<open>
  \<^verbatim>\<open>MultiRoundShapleyValue\<close> belongs to an external library. The server reads its
  \<^verbatim>\<open>round_number\<close> and its tables (round, then worker id, to value) after
  \<^verbatim>\<open>compute()\<close>; the estimator itself is a parameter of the model.
\<close>

record sv_algorithm =
  round_number :: nat
  shapley_values :: "(nat, (int, real) dict) dict"
  shapley_values_S :: "(nat, (int, real) dict) dict"

text \<open>
  The fields of \<^verbatim>\<open>MultiRoundShapleyValueServer\<close> that its two methods use.
  \<open>'p\<close> is a parameter dictionary and \<open>'u\<close> one worker's update.
\<close>

record 'p server =
  metric_type :: string
  sv_algorithm :: "sv_algorithm option"
  choose_best_subset :: bool
  worker_number :: nat
  cached_parameter_dict :: 'p

text \<open>
  What the two methods call and the sources do not contain: the inherited methods
  \<^verbatim>\<open>FedAVGServer._aggregate_worker_data\<close> and \<^verbatim>\<open>get_metric\<close> of the server, the
  constructor of the estimator (worker number and last round's metric), and
  \<^verbatim>\<open>set_metric_function\<close> followed by \<^verbatim>\<open>compute()\<close>, which may evaluate the
  metric function on any round and subset and fails when that evaluation fails.
\<close>

record ('p, 'u) server_env =
  base_aggregate :: "'p server \<Rightarrow> (int, 'u) dict \<Rightarrow> error + 'p"
  get_metric :: "'p server \<Rightarrow> 'p \<Rightarrow> (string, real) dict"
  new_sv_algorithm :: "nat \<Rightarrow> real \<Rightarrow> sv_algorithm"
  compute :: "(nat \<Rightarrow> int set \<Rightarrow> error + real) \<Rightarrow> sv_algorithm \<Rightarrow> error + sv_algorithm"

text \<open>\<^verbatim>\<open>{k: v for k, v in worker_data.items() if k in subset}\<close>\<close>

definition restrict_to :: "int set \<Rightarrow> (int, 'u) dict \<Rightarrow> (int, 'u) dict" where
  "restrict_to subset_ids worker_data = filter (\<lambda>(k, v). k \<in> subset_ids) worker_data"

text \<open>\<^verbatim>\<open>MultiRoundShapleyValueServer._get_subset_metric(self, _, subset, worker_data)\<close>\<close>

definition get_subset_metric ::
  "('p, 'u) server_env \<Rightarrow> 'p server \<Rightarrow> nat \<Rightarrow> int set \<Rightarrow> (int, 'u) dict \<Rightarrow> error + real" where
  "get_subset_metric env self round_no subset_ids worker_data =
     (let worker_data' = restrict_to subset_ids worker_data in
      if worker_data' = [] then Inl AssertionError
      else (case base_aggregate env self worker_data' of
              Inl e \<Rightarrow> Inl e
            | Inr p \<Rightarrow> getitem (get_metric env self p) (metric_type self)))"

text \<open>The \<^verbatim>\<open>if self.sv_algorithm is None:\<close> block: the estimator in use afterwards.\<close>

definition ensure_sv_algorithm :: "('p, 'u) server_env \<Rightarrow> 'p server \<Rightarrow> error + sv_algorithm" where
  "ensure_sv_algorithm env self =
     (case sv_algorithm self of
        Some alg \<Rightarrow> Inr alg
      | None \<Rightarrow>
          (case getitem (get_metric env self (cached_parameter_dict self)) (metric_type self) of
             Inl e \<Rightarrow> Inl e
           | Inr last_round_metric \<Rightarrow>
               Inr (new_sv_algorithm env (worker_number self) last_round_metric)))"

text \<open>
  \<^verbatim>\<open>MultiRoundShapleyValueServer._aggregate_worker_data(self, worker_data)\<close>: the
  server afterwards and the aggregate or the exception.
\<close>

definition aggregate_worker_data ::
  "('p, 'u) server_env \<Rightarrow> 'p server \<Rightarrow> (int, 'u) dict \<Rightarrow> 'p server \<times> (error + 'p)" where
  "aggregate_worker_data env self worker_data =
     (case ensure_sv_algorithm env self of
        Inl e \<Rightarrow> (self, Inl e)
      | Inr alg \<Rightarrow>
          let self1 = self\<lparr>sv_algorithm := Some alg\<rparr> in
          (case compute env (\<lambda>round_no subset_ids.
                   get_subset_metric env self1 round_no subset_ids worker_data) alg of
             Inl e \<Rightarrow> (self1, Inl e)
           | Inr alg' \<Rightarrow>
               let self2 = self\<lparr>sv_algorithm := Some alg'\<rparr> in
               if choose_best_subset self2 then
                 (case getitem (shapley_values_S alg') (round_number alg') of
                    Inl e \<Rightarrow> (self2, Inl e)
                  | Inr table \<Rightarrow>
                      let best_subset = keys table in
                      if best_subset \<noteq> {}
                      then (self2, base_aggregate env self2 (restrict_to best_subset worker_data))
                      else (self2, base_aggregate env self2 worker_data))
               else (self2, base_aggregate env self2 worker_data)))"


section \<open>worker/fed\_avg\_worker.py and worker/fed\_dropout\_avg\_worker.py\<close>

text \<open>
  A floating-point element is a real number, an infinity or \<^verbatim>\<open>nan\<close>; rounding,
  overflow and the sign of a zero are not modelled. Products and differences follow
  IEEE 754 on the infinities and \<^verbatim>\<open>nan\<close>.
\<close>

datatype pyfloat = Finite real | PosInf | NegInf | NaN

fun fmul :: "pyfloat \<Rightarrow> pyfloat \<Rightarrow> pyfloat" where
  "fmul NaN y = NaN"
| "fmul x NaN = NaN"
| "fmul (Finite a) (Finite b) = Finite (a * b)"
| "fmul (Finite a) PosInf = (if a = 0 then NaN else if 0 < a then PosInf else NegInf)"
| "fmul (Finite a) NegInf = (if a = 0 then NaN else if 0 < a then NegInf else PosInf)"
| "fmul PosInf (Finite b) = (if b = 0 then NaN else if 0 < b then PosInf else NegInf)"
| "fmul NegInf (Finite b) = (if b = 0 then NaN else if 0 < b then NegInf else PosInf)"
| "fmul PosInf PosInf = PosInf"
| "fmul PosInf NegInf = NegInf"
| "fmul NegInf PosInf = NegInf"
| "fmul NegInf NegInf = PosInf"

fun fsub :: "pyfloat \<Rightarrow> pyfloat \<Rightarrow> pyfloat" where
  "fsub NaN y = NaN"
| "fsub x NaN = NaN"
| "fsub (Finite a) (Finite b) = Finite (a - b)"
| "fsub (Finite a) PosInf = NegInf"
| "fsub (Finite a) NegInf = PosInf"
| "fsub PosInf (Finite b) = PosInf"
| "fsub NegInf (Finite b) = NegInf"
| "fsub PosInf PosInf = NaN"
| "fsub PosInf NegInf = PosInf"
| "fsub NegInf PosInf = NegInf"
| "fsub NegInf NegInf = NaN"

text \<open>
  A tensor is the list of its elements together with its kind of dtype, floating-point
  or integer (a model holds both, counters being integer tensors).
\<close>

datatype tensor = FloatTensor "pyfloat list" | IntTensor "int list"

text \<open>
  The elementwise \<^verbatim>\<open>v * w\<close> and \<^verbatim>\<open>v - w\<close> of two tensors of one shape; an
  integer tensor is promoted when the other one is floating-point.
\<close>

fun tensor_mul :: "tensor \<Rightarrow> tensor \<Rightarrow> tensor" where
  "tensor_mul (FloatTensor xs) (FloatTensor ys) = FloatTensor (map2 fmul xs ys)"
| "tensor_mul (FloatTensor xs) (IntTensor ys) =
     FloatTensor (map2 fmul xs (map (\<lambda>y. Finite (of_int y)) ys))"
| "tensor_mul (IntTensor xs) (FloatTensor ys) =
     FloatTensor (map2 fmul (map (\<lambda>x. Finite (of_int x)) xs) ys)"
| "tensor_mul (IntTensor xs) (IntTensor ys) = IntTensor (map2 (*) xs ys)"

fun tensor_sub :: "tensor \<Rightarrow> tensor \<Rightarrow> tensor" where
  "tensor_sub (FloatTensor xs) (FloatTensor ys) = FloatTensor (map2 fsub xs ys)"
| "tensor_sub (FloatTensor xs) (IntTensor ys) =
     FloatTensor (map2 fsub xs (map (\<lambda>y. Finite (of_int y)) ys))"
| "tensor_sub (IntTensor xs) (FloatTensor ys) =
     FloatTensor (map2 fsub (map (\<lambda>x. Finite (of_int x)) xs) ys)"
| "tensor_sub (IntTensor xs) (IntTensor ys) = IntTensor (map2 (-) xs ys)"

text \<open>A parameter dictionary maps parameter names to tensors.\<close>

type_synonym parameter_dict = "(string, tensor) dict"

text \<open>
  The dictionaries exchanged between a worker and the server, with the keys the
  workers read and write; a key that is absent is \<open>None\<close>. A skipped round is the
  Python value \<^verbatim>\<open>None\<close> in place of a dictionary, so a channel carries
  \<open>message option\<close>.
\<close>

record message =
  parameter :: "parameter_dict option"
  parameter_diff :: "parameter_dict option"
  dataset_size :: "nat option"
  end_training :: "bool option"

text \<open>
  The attributes of a worker that the two classes use: \<^verbatim>\<open>_round_num\<close>,
  \<^verbatim>\<open>_send_parameter_diff\<close>, the private \<^verbatim>\<open>__stopped\<close>, the trainer's parameter
  dictionary and dataset size, the parameter dictionary held by \<^verbatim>\<open>ModelCache\<close> and
  \<^verbatim>\<open>__dropout_rate\<close>.
\<close>

record worker =
  worker_id :: int
  round_num :: nat
  send_parameter_diff :: bool
  private_stopped :: bool
  trainer_parameters :: parameter_dict
  trainer_dataset_size :: nat
  model_cache :: parameter_dict
  dropout_rate :: real

text \<open>
  Modelled from the spec: \<^verbatim>\<open>Client.get_result_from_server\<close> and
  \<^verbatim>\<open>Client.send_data_to_server\<close> (worker/client.py is not among the sources). The
  spec lets a worker talk to the server through its endpoint only.
\<close>

definition Client_get_result_from_server ::
  "worker \<Rightarrow> message option central_topology \<Rightarrow>
   (error + message option \<times> message option central_topology) option" where
  "Client_get_result_from_server self t = ClientEndpoint_get t (worker_id self)"

definition send_data_to_server ::
  "worker \<Rightarrow> message option central_topology \<Rightarrow> message option \<Rightarrow>
   error + message option central_topology" where
  "send_data_to_server self t data = ClientEndpoint_send t (worker_id self) data"

text \<open>
  \<^verbatim>\<open>FedAVGWorker._stopped\<close>. The inherited \<^verbatim>\<open>super()._stopped()\<close> is not among
  the sources; it is the parameter \<open>super_stopped\<close>, a predicate on the worker.
\<close>

definition stopped :: "(worker \<Rightarrow> bool) \<Rightarrow> worker \<Rightarrow> bool" where
  "stopped super_stopped self \<longleftrightarrow> super_stopped self \<or> private_stopped self"

text \<open>
  Modelled from the spec: \<^verbatim>\<open>_load_parameters\<close> and
  \<^verbatim>\<open>ModelCache.cache_parameter_dict\<close> (their modules are not among the sources).
  The spec has a received result applied as the new baseline parameter set and then
  cached.
\<close>

definition load_parameters :: "worker \<Rightarrow> parameter_dict \<Rightarrow> worker" where
  "load_parameters self p = self\<lparr>trainer_parameters := p\<rparr>"

definition cache_parameter_dict :: "worker \<Rightarrow> parameter_dict \<Rightarrow> worker" where
  "cache_parameter_dict self p = self\<lparr>model_cache := p\<rparr>"

text \<open>\<^verbatim>\<open>FedAVGWorker.load_result_from_server\<close>\<close>

definition load_result_from_server :: "worker \<Rightarrow> message \<Rightarrow> worker \<times> (error + unit)" where
  "load_result_from_server self result =
     (if end_training result \<noteq> None
      then (self\<lparr>private_stopped := True\<rparr>, Inl StopExecutingException)
      else (case parameter result of
              None \<Rightarrow> (self, Inl KeyError)
            | Some p \<Rightarrow>
                (let self1 = load_parameters self p
                 in (cache_parameter_dict self1 (trainer_parameters self1), Inr ()))))"

text \<open>
  \<^verbatim>\<open>FedAVGWorker.get_result_from_server\<close>: the worker and the topology when the
  call returns or raises, and \<open>None\<close> when it waits for ever.
\<close>

function get_result_from_server ::
  "(worker \<Rightarrow> bool) \<Rightarrow> worker \<Rightarrow> message option central_topology \<Rightarrow>
   (worker \<times> message option central_topology \<times> (error + unit)) option" where
  "get_result_from_server super_stopped self t =
     (case Client_get_result_from_server self t of
        None \<Rightarrow> None
      | Some (Inl e) \<Rightarrow> Some (self, t, Inl e)
      | Some (Inr (None, t1)) \<Rightarrow>
          (let self1 = self\<lparr>round_num := round_num self + 1\<rparr> in
           case send_data_to_server self1 t1 None of
             Inl e \<Rightarrow> Some (self1, t1, Inl e)
           | Inr t2 \<Rightarrow>
               if stopped super_stopped self1 then Some (self1, t2, Inr ())
               else get_result_from_server super_stopped self1 t2)
      | Some (Inr (Some result, t1)) \<Rightarrow>
          (case load_result_from_server self result of
             (self1, r) \<Rightarrow> Some (self1, t1, r)))"
  by pat_completeness auto
termination
proof (relation "measure (\<lambda>(super_stopped, self, t). length (server_to_worker t (worker_id self)))")
  show "wf (measure (\<lambda>(super_stopped, self, t). length (server_to_worker t (worker_id self))))"
    by simp
next
  fix super_stopped :: "worker \<Rightarrow> bool" and self :: worker
    and t t1 t2 :: "message option central_topology"
    and x2 xa and y :: "message option \<times> message option central_topology"
    and x1 :: "message option" and self1 :: worker
  assume "Client_get_result_from_server self t = Some x2" "x2 = Inr y" "(x1, t1) = y"
    "x1 = None" "self1 = self\<lparr>round_num := round_num self + 1\<rparr>"
    "send_data_to_server self1 t1 None = Inr t2"
  then have "server_to_worker t (worker_id self) = None # server_to_worker t2 (worker_id self)"
    by (auto simp: Client_get_result_from_server_def ClientEndpoint_get_def get_from_server_def
        send_data_to_server_def ClientEndpoint_send_def send_to_server_def
        split: if_splits list.splits)
  then show "((super_stopped, self1, t2), (super_stopped, self, t))
        \<in> measure (\<lambda>(super_stopped, self, t). length (server_to_worker t (worker_id self)))"
    using \<open>self1 = self\<lparr>round_num := round_num self + 1\<rparr>\<close> by simp
qed

declare get_result_from_server.simps [simp del]

text \<open>
  Modelled from the spec: \<^verbatim>\<open>ModelCache.get_parameter_diff\<close> (util/model\_cache.py
  is not among the sources): the elementwise difference between the new parameters
  and the cached ones, which have the same keys and shapes.
\<close>

fun parameter_diff_items :: "parameter_dict \<Rightarrow> parameter_dict \<Rightarrow> error + parameter_dict" where
  "parameter_diff_items cache [] = Inr []"
| "parameter_diff_items cache ((k, v) # rest) =
     (case map_of cache k of
        None \<Rightarrow> Inl KeyError
      | Some c \<Rightarrow>
          (case parameter_diff_items cache rest of
             Inl e \<Rightarrow> Inl e
           | Inr d \<Rightarrow> Inr ((k, tensor_sub v c) # d)))"

definition get_parameter_diff :: "worker \<Rightarrow> parameter_dict \<Rightarrow> error + parameter_dict" where
  "get_parameter_diff self new_parameters = parameter_diff_items (model_cache self) new_parameters"

text \<open>
  The first statements of \<^verbatim>\<open>FedAVGWorker._aggretation\<close>: the dictionary that is
  handed to \<^verbatim>\<open>send_data_to_server\<close>.
\<close>

definition aggretation_message :: "worker \<Rightarrow> message \<Rightarrow> error + message" where
  "aggretation_message self sent_data =
     (if send_parameter_diff self then
        (case parameter sent_data of
           None \<Rightarrow> Inl KeyError
         | Some parameter_data \<Rightarrow>
             (case get_parameter_diff self parameter_data of
                Inl e \<Rightarrow> Inl e
              | Inr diff \<Rightarrow> Inr (sent_data\<lparr>parameter := None, parameter_diff := Some diff\<rparr>)))
      else Inr sent_data)"


text \<open>
  \<^verbatim>\<open>FedAVGWorker._get_sent_data\<close>. The dictionary returned by
  \<^verbatim>\<open>super()._get_sent_data()\<close> is the argument \<open>super_sent_data\<close>; its
  \<^verbatim>\<open>"parameter"\<close> entry holds the newly trained parameters.
\<close>

definition FedAVGWorker_get_sent_data :: "worker \<Rightarrow> message \<Rightarrow> message" where
  "FedAVGWorker_get_sent_data self super_sent_data =
     super_sent_data\<lparr>dataset_size := Some (trainer_dataset_size self)\<rparr>"

text \<open>
  \<^verbatim>\<open>torch.full_like(v, x)\<close>: a tensor of the shape and dtype of \<open>v\<close> filled with
  \<open>x\<close>, truncated towards zero for an integer dtype.
\<close>

fun full_like :: "tensor \<Rightarrow> real \<Rightarrow> tensor" where
  "full_like (FloatTensor xs) x = FloatTensor (replicate (length xs) (Finite x))"
| "full_like (IntTensor xs) x =
     IntTensor (replicate (length xs) (if 0 \<le> x then \<lfloor>x\<rfloor> else \<lceil>x\<rceil>))"

text \<open>
  One element of \<^verbatim>\<open>torch.bernoulli\<close>: the probability must lie in \<open>[0, 1]\<close>, and
  the element is 1 when the uniform draw from \<open>[0, 1)\<close> made for it is below the
  probability and 0 otherwise, so it is 1 with that probability.
\<close>

fun valid_probability :: "pyfloat \<Rightarrow> bool" where
  "valid_probability (Finite q) \<longleftrightarrow> 0 \<le> q \<and> q \<le> 1"
| "valid_probability x \<longleftrightarrow> False"

fun bernoulli_element :: "real \<Rightarrow> pyfloat \<Rightarrow> pyfloat" where
  "bernoulli_element draw (Finite q) = (if draw < q then Finite 1 else Finite 0)"
| "bernoulli_element draw x = NaN"

text \<open>
  \<^verbatim>\<open>torch.bernoulli(probabilities)\<close>. The random generator is the argument
  \<open>uniform\<close>, the uniform draw for every element position; the draws of different
  positions are independent of each other. An integer tensor and a probability outside
  \<open>[0, 1]\<close> raise \<^verbatim>\<open>RuntimeError\<close>.
\<close>

fun bernoulli :: "(nat \<Rightarrow> real) \<Rightarrow> tensor \<Rightarrow> error + tensor" where
  "bernoulli uniform (IntTensor qs) = Inl RuntimeError"
| "bernoulli uniform (FloatTensor qs) =
     (if \<forall>q \<in> set qs. valid_probability q
      then Inr (FloatTensor (map (\<lambda>i. bernoulli_element (uniform i) (qs ! i)) [0 ..< length qs]))
      else Inl RuntimeError)"

text \<open>
  The loop of \<^verbatim>\<open>FedDropoutAvgWorker._get_sent_data\<close> over the items of the
  parameter dictionary, with \<open>keep_probability\<close> for \<^verbatim>\<open>1 - self.__dropout_rate\<close>;
  \<open>n\<close> counts the tensors that were masked before. Every value is replaced under
  its own key, so the keys and their order stay. The two counters of the loop are only
  logged.
\<close>

fun dropout_items ::
  "real \<Rightarrow> (nat \<Rightarrow> nat \<Rightarrow> real) \<Rightarrow> nat \<Rightarrow> parameter_dict \<Rightarrow> error + parameter_dict" where
  "dropout_items keep_probability uniform n [] = Inr []"
| "dropout_items keep_probability uniform n ((k, v) # rest) =
     (case bernoulli (uniform n) (full_like v keep_probability) of
        Inl e \<Rightarrow> Inl e
      | Inr weight \<Rightarrow>
          (case dropout_items keep_probability uniform (Suc n) rest of
             Inl e \<Rightarrow> Inl e
           | Inr rest' \<Rightarrow> Inr ((k, tensor_mul v weight) # rest')))"

text \<open>
  The tensors that this loop can mask at a keep probability \<open>q\<close>: floating-point
  ones, and with an element only when \<open>q\<close> lies in \<open>[0, 1]\<close>.
\<close>

definition maskable :: "real \<Rightarrow> tensor \<Rightarrow> bool" where
  "maskable q v \<longleftrightarrow> (\<exists>xs. v = FloatTensor xs \<and> (xs = [] \<or> (0 \<le> q \<and> q \<le> 1)))"

text \<open>\<^verbatim>\<open>FedDropoutAvgWorker._get_sent_data\<close>\<close>

definition FedDropoutAvgWorker_get_sent_data ::
  "(nat \<Rightarrow> nat \<Rightarrow> real) \<Rightarrow> worker \<Rightarrow> message \<Rightarrow> worker \<times> (error + message)" where
  "FedDropoutAvgWorker_get_sent_data uniform self super_sent_data =
     (let self1 = self\<lparr>send_parameter_diff := False\<rparr>;
          sent_data = FedAVGWorker_get_sent_data self1 super_sent_data
      in case parameter sent_data of
           None \<Rightarrow> (self1, Inl KeyError)
         | Some p \<Rightarrow>
             (case dropout_items (1 - dropout_rate self1) uniform 0 p of
                Inl e \<Rightarrow> (self1, Inl e)
              | Inr masked \<Rightarrow> (self1, Inr (sent_data\<lparr>parameter := Some masked\<rparr>))))"


text \<open>
  The topology after the worker \<open>w\<close> has read its inbound channel down to \<open>rest\<close>
  and has appended \<open>out\<close> to its outbound channel.
\<close>

definition exchanged ::
  "'a central_topology \<Rightarrow> int \<Rightarrow> 'a list \<Rightarrow> 'a list \<Rightarrow> 'a central_topology" where
  "exchanged t w rest out =
     t\<lparr>server_to_worker := (server_to_worker t)(w := rest),
       worker_to_server := (worker_to_server t)(w := worker_to_server t w @ out)\<rparr>"


text \<open>
  Modelled from the spec: the Sending state of a dropout worker (the caller of the two
  methods, \<^verbatim>\<open>AggregationWorker\<close>, is not among the sources): the dictionary built
  by \<^verbatim>\<open>_get_sent_data\<close> is handed to \<^verbatim>\<open>_aggretation\<close>. The result is the
  dictionary that \<^verbatim>\<open>_aggretation\<close> sends.
\<close>

definition round_message ::
  "(nat \<Rightarrow> nat \<Rightarrow> real) \<Rightarrow> worker \<Rightarrow> message \<Rightarrow> error + message" where
  "round_message uniform self super_sent_data =
     (case FedDropoutAvgWorker_get_sent_data uniform self super_sent_data of
        (self1, Inl e) \<Rightarrow> Inl e
      | (self1, Inr sent_data) \<Rightarrow> aggretation_message self1 sent_data)"

text \<open>
  The round message of a dropout worker as the specification words it: the difference
  between the newly trained and the cached parameters, masked element by element,
  under \<^verbatim>\<open>"parameter_diff"\<close>.
\<close>

definition masked_diff_message ::
  "(nat \<Rightarrow> nat \<Rightarrow> real) \<Rightarrow> worker \<Rightarrow> message \<Rightarrow> error + message" where
  "masked_diff_message uniform self super_sent_data =
     (case parameter super_sent_data of
        None \<Rightarrow> Inl KeyError
      | Some p \<Rightarrow>
          (case get_parameter_diff self p of
             Inl e \<Rightarrow> Inl e
           | Inr diff \<Rightarrow>
               (case dropout_items (1 - dropout_rate self) uniform 0 diff of
                  Inl e \<Rightarrow> Inl e
                | Inr masked \<Rightarrow>
                    Inr (super_sent_data\<lparr>parameter := None,
                           parameter_diff := Some masked,
                           dataset_size := Some (trainer_dataset_size self)\<rparr>))))"


text \<open>
  Inputs of the examples: uniform draws that are all 0 (every element is kept at a
  positive probability), all \<open>3/4\<close>, or \<open>1/4\<close> for the first element of a tensor
  and \<open>3/4\<close> for the others; channels without messages; and an inherited stop
  condition that holds once the round counter has passed a round budget.
\<close>

definition draws_zero :: "nat \<Rightarrow> nat \<Rightarrow> real" where
  "draws_zero n i = 0"

definition draws_high :: "nat \<Rightarrow> nat \<Rightarrow> real" where
  "draws_high n i = 3 / 4"

definition draws_first_low :: "nat \<Rightarrow> nat \<Rightarrow> real" where
  "draws_first_low n i = (if i = 0 then 1 / 4 else 3 / 4)"

definition no_messages :: "int \<Rightarrow> 'a list" where
  "no_messages w = []"

definition round_budget_exhausted :: "nat \<Rightarrow> worker \<Rightarrow> bool" where
  "round_budget_exhausted budget self \<longleftrightarrow> budget < round_num self"


section \<open>training.py\<close>

text \<open>
  A unit's result dictionary maps \<^verbatim>\<open>"sv"\<close> to the Shapley-value tables (round,
  then worker id, to value) and metric names to values.
\<close>

datatype stat_value =
    Metric real
  | ShapleyTable "(nat, (int, real) dict) dict"

type_synonym stats = "(string, stat_value) dict"

text \<open>
  The attributes of \<^verbatim>\<open>DistributedTrainingConfig\<close> that training.py reads
  (\<open>cfg_worker_number\<close> is \<^verbatim>\<open>config.worker_number\<close>).
\<close>

record config =
  log_file :: string
  cfg_worker_number :: nat

text \<open>
  One call \<^verbatim>\<open>process_pool.exec(start_executors, task_id=, worker_configs=,
  server_config=)\<close>; a worker configuration is named by its worker id and a server
  configuration by a string.
\<close>

datatype exec_call = StartExecutors "int option" "int list" "string option"

text \<open>
  \<^verbatim>\<open>TorchProcessPool\<close> is an external collaborator: the model keeps the topology
  it was initialised with and the units scheduled on it. What its \<^verbatim>\<open>wait\<close> and
  \<^verbatim>\<open>stop\<close> return is given by the host at the time of the call.
\<close>

record process_pool =
  initargs :: "message option central_topology"
  scheduled :: "exec_call list"

text \<open>An entry of the module-level \<^verbatim>\<open>tasks\<close> dictionary.\<close>

record task =
  task_process_pool :: process_pool
  practitioner_ids :: "int set option"
  task_config :: config

text \<open>
  The dictionary returned by \<^verbatim>\<open>get_worker_config\<close> (algorithm\_factory.py is not
  among the sources) with the three keys that \<^verbatim>\<open>train\<close> reads.
\<close>

record worker_config =
  topology :: "message option central_topology option"
  worker_map :: "(int, int list) dict option"
  server_config :: "string option"

text \<open>
  What \<^verbatim>\<open>train\<close> and \<^verbatim>\<open>get_training_result\<close> ask of their surroundings:
  \<^verbatim>\<open>os.sysconf\<close> (\<open>None\<close> when \<^verbatim>\<open>os\<close> has no such attribute; its value is an
  integer), \<^verbatim>\<open>uuid.uuid4().int\<close>, \<^verbatim>\<open>get_worker_config\<close>, and the answers of
  a process pool to \<^verbatim>\<open>wait(timeout)\<close> and \<^verbatim>\<open>stop()\<close>.
\<close>

record host =
  sysconf :: "(string \<Rightarrow> int) option"
  uuid4 :: int
  get_worker_config :: "config \<Rightarrow> int set option \<Rightarrow> worker_config"
  pool_wait :: "process_pool \<Rightarrow> real option \<Rightarrow> bool"
  pool_stop :: "process_pool \<Rightarrow> stats list"

text \<open>The actions of training.py on its surroundings, in the order they happen.\<close>

datatype effect =
    SetEnviron string string
  | ApplyGlobalConfig
  | SetFileHandler string
  | GetWorkerConfig
  | CreateDeviceLock
  | CreateProcessPool
  | PoolExec exec_call
  | PoolStop

text \<open>The state of the module: the \<^verbatim>\<open>tasks\<close> dictionary and the actions so far.\<close>

record system =
  tasks :: "int \<rightharpoonup> task"
  effects :: "effect list"

text \<open>
  The loop of \<^verbatim>\<open>train\<close> over \<^verbatim>\<open>worker_config["worker_map"].items()\<close>: the
  pool and the actions after every unit was scheduled.
\<close>

fun exec_units ::
  "worker_config \<Rightarrow> int option \<Rightarrow> (int, int list) dict \<Rightarrow> process_pool \<Rightarrow> effect list \<Rightarrow>
   process_pool \<times> effect list" where
  "exec_units wc task_id [] process_pool effs = (process_pool, effs)"
| "exec_units wc task_id ((process_idx, worker_configs) # rest) process_pool effs =
     (let call = StartExecutors task_id worker_configs
                   (if process_idx = 0 then server_config wc else None)
      in exec_units wc task_id rest
           (process_pool\<lparr>scheduled := scheduled process_pool @ [call]\<rparr>)
           (effs @ [PoolExec call]))"

text \<open>The calls that this loop schedules, one per item of the worker map.\<close>

definition unit_calls :: "worker_config \<Rightarrow> int option \<Rightarrow> (int, int list) dict \<Rightarrow> exec_call list" where
  "unit_calls wc task_id units =
     map (\<lambda>(process_idx, worker_configs).
            StartExecutors task_id worker_configs
              (if process_idx = 0 then server_config wc else None)) units"

text \<open>\<^verbatim>\<open>train(config, non_blocking, practitioner_ids)\<close>\<close>

definition train ::
  "host \<Rightarrow> system \<Rightarrow> config \<Rightarrow> bool \<Rightarrow> int set option \<Rightarrow> system \<times> (error + int option)" where
  "train h sys cfg non_blocking pids =
     (if (case sysconf h of None \<Rightarrow> False | Some f \<Rightarrow> f ''SC_OPEN_MAX'' \<le> 1024)
      then (sys, Inl RuntimeError)
      else
        let effs1 = effects sys @ [SetEnviron ''CUDA_MODULE_LOADING'' ''LAZY'', ApplyGlobalConfig,
                                   SetFileHandler (log_file cfg), GetWorkerConfig];
            wc = get_worker_config h cfg pids
        in case topology wc of
             None \<Rightarrow> (sys\<lparr>effects := effs1\<rparr>, Inl KeyError)
           | Some topo \<Rightarrow>
               let task_id = (if non_blocking then Some (uuid4 h) else None);
                   effs2 = effs1 @ [CreateDeviceLock, CreateProcessPool];
                   process_pool = \<lparr>initargs = topo, scheduled = []\<rparr>
               in case worker_map wc of
                    None \<Rightarrow> (sys\<lparr>effects := effs2\<rparr>, Inl KeyError)
                  | Some units \<Rightarrow>
                      (case exec_units wc task_id units process_pool effs2 of
                         (process_pool', effs3) \<Rightarrow>
                           if \<not> non_blocking
                           then (sys\<lparr>effects := effs3 @ [PoolStop]\<rparr>, Inr None)
                           else (sys\<lparr>tasks := (tasks sys)
                                        (uuid4 h \<mapsto> \<lparr>task_process_pool = process_pool',
                                                     practitioner_ids = pids,
                                                     task_config = cfg\<rparr>),
                                      effects := effs3\<rparr>,
                                 Inr (Some (uuid4 h)))))"

text \<open>
  The innermost loop of \<^verbatim>\<open>get_training_result\<close>, over
  \<^verbatim>\<open>zip(sorted(practitioner_ids), range(config.worker_number))\<close>.
\<close>

fun remap_workers ::
  "(int \<times> int) list \<Rightarrow> (int, real) dict \<Rightarrow> (int, real) dict \<Rightarrow> error + (int, real) dict" where
  "remap_workers [] tmp_sv_dict sv_round = Inr sv_round"
| "remap_workers ((practitioner_id, w) # rest) tmp_sv_dict sv_round =
     (case map_of tmp_sv_dict w of
        None \<Rightarrow> Inl KeyError
      | Some x \<Rightarrow> remap_workers rest tmp_sv_dict (AList.update practitioner_id x sv_round))"

text \<open>The loop over the rounds of a Shapley-value table, \<^verbatim>\<open>v.items()\<close>.\<close>

fun remap_rounds ::
  "int list \<Rightarrow> nat \<Rightarrow> (nat, (int, real) dict) dict \<Rightarrow> (nat, (int, real) dict) dict \<Rightarrow>
   error + (nat, (int, real) dict) dict" where
  "remap_rounds sorted_ids n [] sv_dict = Inr sv_dict"
| "remap_rounds sorted_ids n ((round_no, tmp_sv_dict) # rest) sv_dict =
     (case remap_workers (zip sorted_ids (map int [0 ..< n])) tmp_sv_dict [] of
        Inl e \<Rightarrow> Inl e
      | Inr sv_round \<Rightarrow>
          remap_rounds sorted_ids n rest (AList.update round_no sv_round sv_dict))"

text \<open>
  The loop over \<^verbatim>\<open>tmp_stats.items()\<close>. A value under \<^verbatim>\<open>"sv"\<close> that is no
  dictionary has no \<^verbatim>\<open>items\<close>.
\<close>

fun remap_stats :: "int list \<Rightarrow> nat \<Rightarrow> stats \<Rightarrow> stats \<Rightarrow> error + stats" where
  "remap_stats sorted_ids n [] stats = Inr stats"
| "remap_stats sorted_ids n ((k, v) # rest) stats =
     (if k \<noteq> ''sv'' then remap_stats sorted_ids n rest (AList.update k v stats)
      else (case v of
              Metric x \<Rightarrow> Inl AttributeError
            | ShapleyTable table \<Rightarrow>
                (case remap_rounds sorted_ids n table [] of
                   Inl e \<Rightarrow> Inl e
                 | Inr sv_dict \<Rightarrow>
                     remap_stats sorted_ids n rest (AList.update k (ShapleyTable sv_dict) stats))))"

text \<open>\<^verbatim>\<open>for result in results: tmp_stats |= result\<close>, from the empty dictionary.\<close>

definition merge_results :: "stats list \<Rightarrow> stats" where
  "merge_results results = fold (\<lambda>result tmp_stats. dict_ior tmp_stats result) results []"

text \<open>\<^verbatim>\<open>get_training_result(task_id, timeout)\<close>\<close>

definition get_training_result ::
  "host \<Rightarrow> system \<Rightarrow> int \<Rightarrow> real option \<Rightarrow> system \<times> (error + stats option)" where
  "get_training_result h sys task_id timeout =
     (case tasks sys task_id of
        None \<Rightarrow> (sys, Inl KeyError)
      | Some task \<Rightarrow>
          if \<not> pool_wait h (task_process_pool task) timeout then (sys, Inr None)
          else
            let sys1 = sys\<lparr>tasks := (tasks sys)(task_id := None),
                           effects := effects sys @ [PoolStop]\<rparr>;
                tmp_stats = merge_results (pool_stop h (task_process_pool task))
            in case practitioner_ids task of
                 None \<Rightarrow> (sys1, Inr (Some tmp_stats))
               | Some ids \<Rightarrow>
                   (case remap_stats (sorted_list_of_set ids)
                           (cfg_worker_number (task_config task)) tmp_stats [] of
                      Inl e \<Rightarrow> (sys1, Inl e)
                    | Inr stats \<Rightarrow> (sys1, Inr (Some stats))))"


section \<open>Properties of broadcast\<close>

lemma delivered_empty: "delivered t data {} = t"
  by (simp add: delivered_def)

lemma worker_num_delivered: "worker_num (delivered t data A) = worker_num t"
  by (simp add: delivered_def)

lemma send_valid:
  "valid_worker_id t w \<Longrightarrow> ServerEndpoint_send t data w = Inr (delivered t data {w})"
  by (auto simp: ServerEndpoint_send_def send_to_worker_def delivered_def fun_eq_iff
      intro!: arg_cong2 [where f = "\<lambda>f r. r\<lparr>server_to_worker := f\<rparr>"])

lemma delivered_insert:
  "w \<notin> A \<Longrightarrow> delivered (delivered t data {w}) data A = delivered t data (insert w A)"
  by (auto simp: delivered_def fun_eq_iff
      intro!: arg_cong2 [where f = "\<lambda>f r. r\<lparr>server_to_worker := f\<rparr>"])

lemma send_each_any_order:
  "distinct ws \<Longrightarrow> \<forall>w \<in> set ws. valid_worker_id t w \<Longrightarrow>
   send_each t data ws = Inr (delivered t data (set ws))"
proof (induction ws arbitrary: t)
  case Nil
  show ?case by (simp add: delivered_empty)
next
  case (Cons w ws)
  have valid: "\<forall>v \<in> set ws. valid_worker_id (delivered t data {w}) v"
    using Cons.prems(2) by (simp add: valid_worker_id_def worker_num_delivered)
  have "send_each (delivered t data {w}) data ws
        = Inr (delivered (delivered t data {w}) data (set ws))"
    using Cons.IH [OF _ valid] Cons.prems(1) by simp
  then show ?case
    using Cons.prems by (simp add: send_valid delivered_insert)
qed


lemma broadcast_targets_finite:
  "finite (case worker_ids of
             None \<Rightarrow> {0 ..< int (worker_num t)}
           | Some ws \<Rightarrow> set ws \<inter> {0 ..< int (worker_num t)})"
  by (cases worker_ids) simp_all

lemma broadcast_delivers:
  "ServerEndpoint_broadcast t data worker_ids =
     Inr (delivered t data (case worker_ids of
                              None \<Rightarrow> {0 ..< int (worker_num t)}
                            | Some ws \<Rightarrow> set ws \<inter> {0 ..< int (worker_num t)}))"
proof -
  let ?A = "case worker_ids of
              None \<Rightarrow> {0 ..< int (worker_num t)}
            | Some ws \<Rightarrow> set ws \<inter> {0 ..< int (worker_num t)}"
  have fin: "finite ?A" by (rule broadcast_targets_finite)
  have sub: "?A \<subseteq> {0 ..< int (worker_num t)}" by (cases worker_ids) auto
  have "\<forall>w \<in> set (sorted_list_of_set ?A). valid_worker_id t w"
    using fin sub by (auto simp: valid_worker_id_def)
  then have "send_each t data (sorted_list_of_set ?A)
             = Inr (delivered t data (set (sorted_list_of_set ?A)))"
    by (intro send_each_any_order) simp_all
  then show ?thesis
    using fin by (simp add: ServerEndpoint_broadcast_def Let_def)
qed

text \<open>
  C9. With \<open>worker_ids = None\<close> a broadcast returns normally and is a sequence of
  single sends that names every worker id of \<open>0 .. worker_num - 1\<close> once, in whatever
  order the ids are enumerated: every such mailbox receives the value once and nothing
  else changes. With an explicit collection it is a sequence of single sends to the
  named workers and to no other mailbox.
\<close>

theorem broadcast_is_repeated_single_sends:
  "(\<forall>order. distinct order \<and> set order = {0 ..< int (worker_num t)} \<longrightarrow>
      ServerEndpoint_broadcast t data None = send_each t data order) \<and>
   ServerEndpoint_broadcast t data None
     = Inr (t\<lparr>server_to_worker :=
               (\<lambda>i. if 0 \<le> i \<and> i < int (worker_num t)
                    then server_to_worker t i @ [data] else server_to_worker t i)\<rparr>) \<and>
   (\<forall>order. distinct order \<and> set order = set ws \<inter> {0 ..< int (worker_num t)} \<longrightarrow>
      ServerEndpoint_broadcast t data (Some ws) = send_each t data order) \<and>
   (\<exists>t'. ServerEndpoint_broadcast t data (Some ws) = Inr t' \<and>
         (\<forall>i. i \<notin> set ws \<longrightarrow> server_to_worker t' i = server_to_worker t i))"
proof -
  have order_ok: "send_each t data order = Inr (delivered t data A)"
    if "distinct order" "set order = A" "A \<subseteq> {0 ..< int (worker_num t)}" for order A
  proof -
    have "\<forall>w \<in> set order. valid_worker_id t w"
      using that by (auto simp: valid_worker_id_def)
    then show ?thesis
      using send_each_any_order [of order t data] that by simp
  qed
  have none: "ServerEndpoint_broadcast t data None
              = Inr (delivered t data {0 ..< int (worker_num t)})"
    using broadcast_delivers [of t data None] by simp
  have some: "ServerEndpoint_broadcast t data (Some ws)
              = Inr (delivered t data (set ws \<inter> {0 ..< int (worker_num t)}))"
    using broadcast_delivers [of t data "Some ws"] by simp
  have c1: "\<forall>order. distinct order \<and> set order = {0 ..< int (worker_num t)} \<longrightarrow>
              ServerEndpoint_broadcast t data None = send_each t data order"
    using none order_ok by auto
  have c2: "ServerEndpoint_broadcast t data None
     = Inr (t\<lparr>server_to_worker :=
               (\<lambda>i. if 0 \<le> i \<and> i < int (worker_num t)
                    then server_to_worker t i @ [data] else server_to_worker t i)\<rparr>)"
    using none by (simp add: delivered_def)
  have c3: "\<forall>order. distinct order \<and> set order = set ws \<inter> {0 ..< int (worker_num t)} \<longrightarrow>
              ServerEndpoint_broadcast t data (Some ws) = send_each t data order"
    using some order_ok [of _ "set ws \<inter> {0 ..< int (worker_num t)}"] by auto
  have c4: "\<exists>t'. ServerEndpoint_broadcast t data (Some ws) = Inr t' \<and>
         (\<forall>i. i \<notin> set ws \<longrightarrow> server_to_worker t' i = server_to_worker t i)"
    using some by (simp add: delivered_def)
  from c1 c2 c3 c4 show ?thesis by blast
qed


theorem broadcast_is_repeated_single_sends_witness:
  "ServerEndpoint_broadcast
       \<lparr>worker_num = 3, server_to_worker = (\<lambda>_. []), worker_to_server = (\<lambda>_. [])\<rparr> (7 :: nat) None
     = send_each
         \<lparr>worker_num = 3, server_to_worker = (\<lambda>_. []), worker_to_server = (\<lambda>_. [])\<rparr> 7 [2, 0, 1] \<and>
   (\<exists>t'. ServerEndpoint_broadcast
            \<lparr>worker_num = 3, server_to_worker = (\<lambda>_. []), worker_to_server = (\<lambda>_. [])\<rparr>
            (7 :: nat) (Some [2, 0]) = Inr t' \<and>
         server_to_worker t' 1 = [])"
proof -
  let ?t = "\<lparr>worker_num = 3, server_to_worker = (\<lambda>_. []), worker_to_server = (\<lambda>_. [])\<rparr>
            :: nat central_topology"
  have order: "distinct [2, 0, 1 :: int] \<and> set [2, 0, 1 :: int] = {0 ..< int (worker_num ?t)}"
    by auto
  have absent: "(1 :: int) \<notin> set [2, 0]" by simp
  note inst = broadcast_is_repeated_single_sends [of ?t 7 "[2, 0]"]
  from inst have "\<forall>order. distinct order \<and> set order = {0 ..< int (worker_num ?t)} \<longrightarrow>
      ServerEndpoint_broadcast ?t 7 None = send_each ?t 7 order"
    by (rule conjunct1)
  with order have first: "ServerEndpoint_broadcast ?t 7 None = send_each ?t 7 [2, 0, 1]"
    by blast
  from inst obtain t' where r: "ServerEndpoint_broadcast ?t 7 (Some [2, 0]) = Inr t'"
    and untouched: "\<forall>i. i \<notin> set [2, 0] \<longrightarrow> server_to_worker t' i = server_to_worker ?t i"
    by blast
  from untouched absent have "server_to_worker t' 1 = []"
    by simp
  with first r show ?thesis by blast
qed

text \<open>
  C10. A broadcast to an explicit collection never raises: ids outside
  \<open>0 .. worker_num - 1\<close> are intersected away and their mailboxes are left alone, and
  the sends go to a duplicate-free sequence of valid ids, so a worker named several
  times receives the value once.
\<close>

theorem broadcast_drops_invalid_and_duplicate_ids:
  "\<exists>t' order.
     ServerEndpoint_broadcast t data (Some ws) = Inr t' \<and>
     ServerEndpoint_broadcast t data (Some ws) = send_each t data order \<and>
     distinct order \<and>
     set order = {i \<in> set ws. 0 \<le> i \<and> i < int (worker_num t)} \<and>
     worker_num t' = worker_num t \<and>
     worker_to_server t' = worker_to_server t \<and>
     (\<forall>i. server_to_worker t' i =
            (if i \<in> set ws \<and> 0 \<le> i \<and> i < int (worker_num t)
             then server_to_worker t i @ [data] else server_to_worker t i))"
proof -
  let ?A = "set ws \<inter> {0 ..< int (worker_num t)}"
  let ?order = "sorted_list_of_set ?A"
  have res: "ServerEndpoint_broadcast t data (Some ws) = Inr (delivered t data ?A)"
    using broadcast_delivers [of t data "Some ws"] by simp
  have def: "ServerEndpoint_broadcast t data (Some ws) = send_each t data ?order"
    by (simp add: ServerEndpoint_broadcast_def Let_def)
  have ord: "distinct ?order"
    and set_ord: "set ?order = {i \<in> set ws. 0 \<le> i \<and> i < int (worker_num t)}"
    by auto
  have boxes: "\<forall>i. server_to_worker (delivered t data ?A) i =
            (if i \<in> set ws \<and> 0 \<le> i \<and> i < int (worker_num t)
             then server_to_worker t i @ [data] else server_to_worker t i)"
    by (simp add: delivered_def)
  have rest: "worker_num (delivered t data ?A) = worker_num t"
    "worker_to_server (delivered t data ?A) = worker_to_server t"
    by (simp_all add: delivered_def)
  show ?thesis
    by (intro exI [of _ "delivered t data ?A"] exI [of _ ?order] conjI
        res def ord set_ord boxes rest)
qed

theorem broadcast_drops_invalid_and_duplicate_ids_witness:
  "\<exists>t'. ServerEndpoint_broadcast
           \<lparr>worker_num = 2, server_to_worker = (\<lambda>_. []), worker_to_server = (\<lambda>_. [])\<rparr>
           (7 :: nat) (Some [1, 1, 5, - 1]) = Inr t' \<and>
        server_to_worker t' 0 = [] \<and>
        server_to_worker t' 1 = [7] \<and>
        server_to_worker t' 5 = [] \<and>
        server_to_worker t' (- 1) = []"
proof -
  let ?t = "\<lparr>worker_num = 2, server_to_worker = (\<lambda>_. []), worker_to_server = (\<lambda>_. [])\<rparr>
            :: nat central_topology"
  obtain t' where r: "ServerEndpoint_broadcast ?t 7 (Some [1, 1, 5, - 1]) = Inr t'"
    and boxes: "\<forall>i. server_to_worker t' i =
            (if i \<in> set [1, 1, 5, - 1] \<and> 0 \<le> i \<and> i < int (worker_num ?t)
             then server_to_worker ?t i @ [7] else server_to_worker ?t i)"
    using broadcast_drops_invalid_and_duplicate_ids [of ?t 7 "[1, 1, 5, - 1]"] by blast
  have "server_to_worker t' 0 = []" "server_to_worker t' 1 = [7]"
    "server_to_worker t' 5 = []" "server_to_worker t' (- 1) = []"
    using boxes by simp_all
  with r show ?thesis by blast
qed


section \<open>Properties of the Shapley-value server\<close>

lemma keys_restrict_to: "keys (restrict_to subset_ids worker_data) = keys worker_data \<inter> subset_ids"
  by (auto simp: keys_def restrict_to_def image_iff)

lemma restrict_to_empty_iff:
  "restrict_to subset_ids worker_data = [] \<longleftrightarrow> keys worker_data \<inter> subset_ids = {}"
proof -
  have "restrict_to subset_ids worker_data = [] \<longleftrightarrow> keys (restrict_to subset_ids worker_data) = {}"
    by (simp add: keys_def)
  then show ?thesis by (simp add: keys_restrict_to)
qed

text \<open>
  C4. The subset metric of a subset that shares no worker id with the round's worker
  data is the failed assertion, whatever the aggregation and the metric would return:
  no value comes back.
\<close>

theorem subset_metric_without_contributor_fails:
  "keys worker_data \<inter> subset_ids = {} \<Longrightarrow>
   get_subset_metric env self round_no subset_ids worker_data = Inl AssertionError"
  by (simp add: get_subset_metric_def restrict_to_empty_iff)

theorem subset_metric_without_contributor_fails_witness:
  "keys [(0 :: int, 5 :: nat), (1, 6)] \<inter> {2} = {} \<and>
   get_subset_metric
     \<lparr>base_aggregate = (\<lambda>self d. Inr (length d)),
      get_metric = (\<lambda>self p. [(''acc'', real p)]),
      new_sv_algorithm = (\<lambda>n m. \<lparr>round_number = 0, shapley_values = [], shapley_values_S = []\<rparr>),
      compute = (\<lambda>f alg. Inr alg)\<rparr>
     \<lparr>metric_type = ''acc'', sv_algorithm = None, choose_best_subset = False,
      worker_number = 2, cached_parameter_dict = 0\<rparr>
     1 {2} [(0, 5 :: nat), (1, 6)] = Inl AssertionError"
proof -
  have h: "keys [(0 :: int, 5 :: nat), (1, 6)] \<inter> {2} = {}"
    by (simp add: keys_def)
  show ?thesis
    using h subset_metric_without_contributor_fails [OF h] by blast
qed


lemma restrict_to_lookup:
  "k \<in> subset_ids \<Longrightarrow> map_of (restrict_to subset_ids worker_data) k = map_of worker_data k"
proof -
  have "restrict_to subset_ids worker_data = AList.restrict subset_ids worker_data"
    by (simp add: restrict_to_def AList.restrict_eq)
  then show "k \<in> subset_ids \<Longrightarrow> ?thesis"
    by simp
qed

lemma aggregate_worker_data_choose_best:
  assumes "choose_best_subset self"
    and "ensure_sv_algorithm env self = Inr alg"
    and "compute env (\<lambda>round_no subset_ids.
           get_subset_metric env (self\<lparr>sv_algorithm := Some alg\<rparr>) round_no subset_ids worker_data)
           alg = Inr alg'"
    and "map_of (shapley_values_S alg') (round_number alg') = Some table"
  shows "aggregate_worker_data env self worker_data =
           (self\<lparr>sv_algorithm := Some alg'\<rparr>,
            if keys table \<noteq> {}
            then base_aggregate env (self\<lparr>sv_algorithm := Some alg'\<rparr>)
                   (restrict_to (keys table) worker_data)
            else base_aggregate env (self\<lparr>sv_algorithm := Some alg'\<rparr>) worker_data)"
  using assms by (simp add: aggregate_worker_data_def getitem_def Let_def)

text \<open>
  C3. With choose-best-subset enabled, once the estimator has computed the round, the
  round's aggregate is the base aggregation of the received worker data restricted to
  the worker ids of the current round's table (each retained worker keeps its update);
  when that table names no worker, it is the base aggregation of all the received
  worker data.
\<close>

theorem best_subset_decides_aggregation_input:
  assumes "choose_best_subset self"
    and "ensure_sv_algorithm env self = Inr alg"
    and "compute env (\<lambda>round_no subset_ids.
           get_subset_metric env (self\<lparr>sv_algorithm := Some alg\<rparr>) round_no subset_ids worker_data)
           alg = Inr alg'"
    and "map_of (shapley_values_S alg') (round_number alg') = Some table"
  shows "(keys table \<noteq> {} \<longrightarrow>
            snd (aggregate_worker_data env self worker_data)
              = base_aggregate env (self\<lparr>sv_algorithm := Some alg'\<rparr>)
                  (filter (\<lambda>(k, v). k \<in> keys table) worker_data)) \<and>
         (keys table = {} \<longrightarrow>
            snd (aggregate_worker_data env self worker_data)
              = base_aggregate env (self\<lparr>sv_algorithm := Some alg'\<rparr>) worker_data) \<and>
         keys (filter (\<lambda>(k, v). k \<in> keys table) worker_data) = keys worker_data \<inter> keys table \<and>
         (\<forall>k \<in> keys table.
            map_of (filter (\<lambda>(k, v). k \<in> keys table) worker_data) k = map_of worker_data k)"
proof -
  note res = aggregate_worker_data_choose_best [OF assms]
  have a: "keys table \<noteq> {} \<longrightarrow>
            snd (aggregate_worker_data env self worker_data)
              = base_aggregate env (self\<lparr>sv_algorithm := Some alg'\<rparr>)
                  (filter (\<lambda>(k, v). k \<in> keys table) worker_data)"
    by (simp add: res restrict_to_def)
  have b: "keys table = {} \<longrightarrow>
            snd (aggregate_worker_data env self worker_data)
              = base_aggregate env (self\<lparr>sv_algorithm := Some alg'\<rparr>) worker_data"
    by (simp add: res)
  have c: "keys (filter (\<lambda>(k, v). k \<in> keys table) worker_data) = keys worker_data \<inter> keys table"
    using keys_restrict_to [of "keys table" worker_data] by (simp add: restrict_to_def)
  have d: "\<forall>k \<in> keys table.
            map_of (filter (\<lambda>(k, v). k \<in> keys table) worker_data) k = map_of worker_data k"
    using restrict_to_lookup [of _ "keys table" worker_data] by (simp add: restrict_to_def)
  from a b c d show ?thesis by (intro conjI)
qed

theorem best_subset_decides_aggregation_input_witness:
  "snd (aggregate_worker_data
     \<lparr>base_aggregate = (\<lambda>self. Inr),
      get_metric = (\<lambda>self p. [(''acc'', real (length p))]),
      new_sv_algorithm = (\<lambda>n m. \<lparr>round_number = 0, shapley_values = [], shapley_values_S = []\<rparr>),
      compute = (\<lambda>f alg. Inr (alg\<lparr>round_number := 1,
                                     shapley_values_S := [(1, [(0, 1 / 2), (2, 1 / 4)])]\<rparr>))\<rparr>
     \<lparr>metric_type = ''acc'', sv_algorithm = None, choose_best_subset = True,
      worker_number = 3, cached_parameter_dict = []\<rparr>
     [(0, 5 :: nat), (1, 6), (2, 7)]) = Inr [(0, 5), (2, 7)]"
proof -
  let ?env = "\<lparr>base_aggregate = (\<lambda>self. Inr),
      get_metric = (\<lambda>self p. [(''acc'', real (length p))]),
      new_sv_algorithm = (\<lambda>n m. \<lparr>round_number = 0, shapley_values = [], shapley_values_S = []\<rparr>),
      compute = (\<lambda>f alg. Inr (alg\<lparr>round_number := 1,
                                     shapley_values_S := [(1, [(0, 1 / 2), (2, 1 / 4)])]\<rparr>))\<rparr>
      :: ((int, nat) dict, nat) server_env"
  let ?self = "\<lparr>metric_type = ''acc'', sv_algorithm = None, choose_best_subset = True,
      worker_number = 3, cached_parameter_dict = []\<rparr> :: (int, nat) dict server"
  let ?alg = "\<lparr>round_number = 0, shapley_values = [], shapley_values_S = []\<rparr>"
  let ?alg' = "\<lparr>round_number = 1, shapley_values = [],
                shapley_values_S = [(1, [(0 :: int, 1 / 2 :: real), (2, 1 / 4)])]\<rparr>"
  let ?wd = "[(0 :: int, 5 :: nat), (1, 6), (2, 7)]"
  have h1: "choose_best_subset ?self" by simp
  have h2: "ensure_sv_algorithm ?env ?self = Inr ?alg"
    by (simp add: ensure_sv_algorithm_def getitem_def)
  have h3: "compute ?env (\<lambda>round_no subset_ids.
           get_subset_metric ?env (?self\<lparr>sv_algorithm := Some ?alg\<rparr>) round_no subset_ids ?wd)
           ?alg = Inr ?alg'"
    by simp
  have h4: "map_of (shapley_values_S ?alg') (round_number ?alg')
            = Some [(0 :: int, 1 / 2 :: real), (2, 1 / 4)]"
    by simp
  have ne: "keys [(0 :: int, 1 / 2 :: real), (2, 1 / 4)] \<noteq> {}"
    by (simp add: keys_def)
  have k: "keys [(0 :: int, 1 / 2 :: real), (2, 1 / 4)] = {0, 2}"
    by (auto simp: keys_def)
  have "snd (aggregate_worker_data ?env ?self ?wd)
        = base_aggregate ?env (?self\<lparr>sv_algorithm := Some ?alg'\<rparr>)
            (filter (\<lambda>(k, v). k \<in> keys [(0 :: int, 1 / 2 :: real), (2, 1 / 4)]) ?wd)"
    by (rule best_subset_decides_aggregation_input
               [OF h1 h2 h3 h4, THEN conjunct1, THEN mp, OF ne])
  then show ?thesis
    by (simp add: k)
qed

section \<open>Properties of the workers\<close>

subsection \<open>Waiting for the server\<close>

lemma exchanged_twice:
  "exchanged (exchanged t w rest1 out1) w rest2 out2 = exchanged t w rest2 (out1 @ out2)"
  by (simp add: exchanged_def)

lemma exchanged_channels:
  "server_to_worker (exchanged t w rest out) w = rest"
  "worker_to_server (exchanged t w rest out) w = worker_to_server t w @ out"
  "valid_worker_id (exchanged t w rest out) v = valid_worker_id t v"
  by (simp_all add: exchanged_def valid_worker_id_def)

lemma get_result_skip_step:
  assumes "valid_worker_id t (worker_id self)"
    and "server_to_worker t (worker_id self) = None # rest"
  shows "get_result_from_server super_stopped self t =
     (if stopped super_stopped (self\<lparr>round_num := round_num self + 1\<rparr>)
      then Some (self\<lparr>round_num := round_num self + 1\<rparr>,
                 exchanged t (worker_id self) rest [None], Inr ())
      else get_result_from_server super_stopped (self\<lparr>round_num := round_num self + 1\<rparr>)
             (exchanged t (worker_id self) rest [None]))"
  using assms
  by (subst get_result_from_server.simps)
     (simp add: Client_get_result_from_server_def ClientEndpoint_get_def get_from_server_def
        send_data_to_server_def ClientEndpoint_send_def send_to_server_def exchanged_def
        valid_worker_id_def Let_def)

lemma get_result_real_step:
  assumes "valid_worker_id t (worker_id self)"
    and "server_to_worker t (worker_id self) = Some result # rest"
  shows "get_result_from_server super_stopped self t =
     Some (fst (load_result_from_server self result),
           exchanged t (worker_id self) rest [],
           snd (load_result_from_server self result))"
  using assms
  by (subst get_result_from_server.simps)
     (simp add: Client_get_result_from_server_def ClientEndpoint_get_def get_from_server_def
        exchanged_def split: prod.splits)

lemma get_result_after_skips:
  assumes "valid_worker_id t (worker_id self)"
    and "server_to_worker t (worker_id self) = replicate k None @ Some result # rest"
    and "\<forall>j < k. \<not> stopped super_stopped (self\<lparr>round_num := round_num self + Suc j\<rparr>)"
  shows "get_result_from_server super_stopped self t =
     Some (fst (load_result_from_server (self\<lparr>round_num := round_num self + k\<rparr>) result),
           exchanged t (worker_id self) rest (replicate k None),
           snd (load_result_from_server (self\<lparr>round_num := round_num self + k\<rparr>) result))"
  using assms
proof (induction k arbitrary: self t)
  case 0
  then show ?case
    by (simp add: get_result_real_step)
next
  case (Suc k)
  let ?self1 = "self\<lparr>round_num := round_num self + 1\<rparr>"
  let ?t1 = "exchanged t (worker_id self) (replicate k None @ Some result # rest) [None]"
  have box: "server_to_worker t (worker_id self) = None # (replicate k None @ Some result # rest)"
    using Suc.prems(2) by simp
  have go: "\<not> stopped super_stopped ?self1"
    using Suc.prems(3) by auto
  have step: "get_result_from_server super_stopped self t
              = get_result_from_server super_stopped ?self1 ?t1"
    using get_result_skip_step [OF Suc.prems(1) box, of super_stopped] go by simp
  have later: "\<forall>j < k. \<not> stopped super_stopped (?self1\<lparr>round_num := round_num ?self1 + Suc j\<rparr>)"
    using Suc.prems(3) by auto
  have "get_result_from_server super_stopped ?self1 ?t1 =
     Some (fst (load_result_from_server (?self1\<lparr>round_num := round_num ?self1 + k\<rparr>) result),
           exchanged ?t1 (worker_id ?self1) rest (replicate k None),
           snd (load_result_from_server (?self1\<lparr>round_num := round_num ?self1 + k\<rparr>) result))"
    using Suc.prems(1) later
    by (intro Suc.IH) (simp_all add: exchanged_channels)
  then show ?case
    using step by (simp add: exchanged_twice replicate_append_same)
qed

text \<open>
  C6, as the code has it. A waiting worker that reads a skip signal adds one to its
  round counter and sends \<^verbatim>\<open>None\<close> to the server; its own stopped flag is not
  touched. It then waits again only if \<^verbatim>\<open>_stopped()\<close> does not hold for the
  incremented counter; if it holds, the call returns without reading further. A worker
  that reads \<open>k\<close> skip signals, is not stopped after any of them, and then reads a
  real result hands that result to \<^verbatim>\<open>load_result_from_server\<close> with its counter
  advanced by exactly \<open>k\<close>, after \<open>k\<close> empty updates.
\<close>

theorem skip_signal_continues_unless_stopped:
  assumes "valid_worker_id t (worker_id self)"
  shows "(server_to_worker t (worker_id self) = None # rest \<longrightarrow>
            get_result_from_server super_stopped self t =
              (if stopped super_stopped (self\<lparr>round_num := round_num self + 1\<rparr>)
               then Some (self\<lparr>round_num := round_num self + 1\<rparr>,
                          exchanged t (worker_id self) rest [None], Inr ())
               else get_result_from_server super_stopped
                      (self\<lparr>round_num := round_num self + 1\<rparr>)
                      (exchanged t (worker_id self) rest [None]))) \<and>
         (server_to_worker t (worker_id self) = replicate k None @ Some result # rest \<and>
          (\<forall>j < k. \<not> stopped super_stopped (self\<lparr>round_num := round_num self + Suc j\<rparr>)) \<longrightarrow>
            get_result_from_server super_stopped self t =
              Some (fst (load_result_from_server (self\<lparr>round_num := round_num self + k\<rparr>) result),
                    exchanged t (worker_id self) rest (replicate k None),
                    snd (load_result_from_server (self\<lparr>round_num := round_num self + k\<rparr>) result)))"
  using get_result_skip_step [OF assms, of rest super_stopped]
    get_result_after_skips [OF assms, of k result rest super_stopped]
  by blast

theorem skip_signal_continues_unless_stopped_witness:
  "\<exists>t'. get_result_from_server (round_budget_exhausted 5)
           \<lparr>worker_id = 0, round_num = 1, send_parameter_diff = True, private_stopped = False,
            trainer_parameters = [(''w'', FloatTensor [Finite 0])], trainer_dataset_size = 10,
            model_cache = [(''w'', FloatTensor [Finite 0])], dropout_rate = 0\<rparr>
           \<lparr>worker_num = 1,
            server_to_worker = no_messages
              (0 := [None, None,
                     Some \<lparr>parameter = Some [(''w'', FloatTensor [Finite 5])], parameter_diff = None,
                           dataset_size = None, end_training = None\<rparr>]),
            worker_to_server = no_messages\<rparr>
         = Some (\<lparr>worker_id = 0, round_num = 3, send_parameter_diff = True,
                  private_stopped = False, trainer_parameters = [(''w'', FloatTensor [Finite 5])],
                  trainer_dataset_size = 10, model_cache = [(''w'', FloatTensor [Finite 5])], dropout_rate = 0\<rparr>,
                 t', Inr ()) \<and>
        server_to_worker t' 0 = [] \<and> worker_to_server t' 0 = [None, None]"
proof -
  let ?w = "\<lparr>worker_id = 0, round_num = 1, send_parameter_diff = True, private_stopped = False,
            trainer_parameters = [(''w'', FloatTensor [Finite 0])], trainer_dataset_size = 10,
            model_cache = [(''w'', FloatTensor [Finite 0])], dropout_rate = 0\<rparr>"
  let ?r = "\<lparr>parameter = Some [(''w'', FloatTensor [Finite 5])], parameter_diff = None,
             dataset_size = None, end_training = None\<rparr>"
  let ?t = "\<lparr>worker_num = 1,
             server_to_worker = no_messages (0 := [None, None, Some ?r]),
             worker_to_server = no_messages\<rparr>"
  have v: "valid_worker_id ?t (worker_id ?w)"
    by (simp add: valid_worker_id_def)
  have box: "server_to_worker ?t (worker_id ?w) = replicate 2 None @ Some ?r # []"
    by (simp add: numeral_2_eq_2)
  have go: "\<forall>j < 2. \<not> stopped (round_budget_exhausted 5) (?w\<lparr>round_num := round_num ?w + Suc j\<rparr>)"
    by (simp add: stopped_def round_budget_exhausted_def)
  from skip_signal_continues_unless_stopped [OF v, of "[]" "round_budget_exhausted 5" 2 ?r] box go
  have "get_result_from_server (round_budget_exhausted 5) ?w ?t =
              Some (fst (load_result_from_server (?w\<lparr>round_num := round_num ?w + 2\<rparr>) ?r),
                    exchanged ?t (worker_id ?w) [] (replicate 2 None),
                    snd (load_result_from_server (?w\<lparr>round_num := round_num ?w + 2\<rparr>) ?r))"
    by blast
  then show ?thesis
    by (simp add: load_result_from_server_def load_parameters_def cache_parameter_dict_def
        exchanged_def numeral_2_eq_2 no_messages_def)
qed

text \<open>
  C6 as the specification words it fails where the inherited stop condition holds
  after the increment: with a round budget of 1, a worker in round 1 that reads a skip signal
  returns from the wait with counter 2, and the real result behind the skip signal
  stays in the channel, unread and not applied.
\<close>

theorem skip_signal_resumes_waiting_counterexample:
  "get_result_from_server (round_budget_exhausted 1)
     \<lparr>worker_id = 0, round_num = 1, send_parameter_diff = True, private_stopped = False,
      trainer_parameters = [(''w'', FloatTensor [Finite 0])], trainer_dataset_size = 10,
      model_cache = [(''w'', FloatTensor [Finite 0])], dropout_rate = 0\<rparr>
     \<lparr>worker_num = 1,
      server_to_worker = no_messages
        (0 := [None,
               Some \<lparr>parameter = Some [(''w'', FloatTensor [Finite 5])], parameter_diff = None,
                     dataset_size = None, end_training = None\<rparr>]),
      worker_to_server = no_messages\<rparr>
   = Some (\<lparr>worker_id = 0, round_num = 2, send_parameter_diff = True, private_stopped = False,
            trainer_parameters = [(''w'', FloatTensor [Finite 0])], trainer_dataset_size = 10,
            model_cache = [(''w'', FloatTensor [Finite 0])], dropout_rate = 0\<rparr>,
           \<lparr>worker_num = 1,
            server_to_worker = no_messages
              (0 := [Some \<lparr>parameter = Some [(''w'', FloatTensor [Finite 5])], parameter_diff = None,
                           dataset_size = None, end_training = None\<rparr>]),
            worker_to_server = no_messages (0 := [None])\<rparr>,
           Inr ())"
  by (subst get_result_from_server.simps)
     (simp add: Client_get_result_from_server_def ClientEndpoint_get_def get_from_server_def
        send_data_to_server_def ClientEndpoint_send_def send_to_server_def stopped_def
        valid_worker_id_def round_budget_exhausted_def no_messages_def)


subsection \<open>The termination message\<close>















subsection \<open>The round message of the dropout worker\<close>

lemma fmul_one: "fmul x (Finite 1) = x"
  by (cases x) simp_all

lemma fmul_zero: "fmul x (Finite 0) = (case x of Finite a \<Rightarrow> Finite 0 | _ \<Rightarrow> NaN)"
  by (cases x) simp_all

lemma bernoulli_full_like:
  "bernoulli draws (full_like (FloatTensor xs) q) =
     (if xs = [] \<or> (0 \<le> q \<and> q \<le> 1)
      then Inr (FloatTensor (map (\<lambda>i. if draws i < q then Finite 1 else Finite 0) [0 ..< length xs]))
      else Inl RuntimeError)"
proof -
  let ?qs = "replicate (length xs) (Finite q)"
  have v: "(\<forall>p \<in> set ?qs. valid_probability p) \<longleftrightarrow> xs = [] \<or> (0 \<le> q \<and> q \<le> 1)"
    by (cases xs) auto
  have m: "map (\<lambda>i. bernoulli_element (draws i) (?qs ! i)) [0 ..< length ?qs]
           = map (\<lambda>i. if draws i < q then Finite 1 else Finite 0) [0 ..< length xs]"
    by (rule nth_equalityI) simp_all
  show ?thesis
    by (simp only: full_like.simps bernoulli.simps v m)
qed

lemma bernoulli_full_like_int: "bernoulli draws (full_like (IntTensor xs) q) = Inl RuntimeError"
  by (simp only: full_like.simps bernoulli.simps)

lemma tensor_mul_weight:
  "tensor_mul (FloatTensor xs) (FloatTensor (map w [0 ..< length xs]))
     = FloatTensor (map (\<lambda>i. fmul (xs ! i) (w i)) [0 ..< length xs])"
proof -
  have "map2 fmul xs (map w [0 ..< length xs]) = map (\<lambda>i. fmul (xs ! i) (w i)) [0 ..< length xs]"
    by (rule nth_equalityI) simp_all
  then show ?thesis by simp
qed

lemma dropout_items_Cons_float:
  "dropout_items q draws n ((k, FloatTensor xs) # rest) =
     (if xs = [] \<or> (0 \<le> q \<and> q \<le> 1) then
        (case dropout_items q draws (Suc n) rest of
           Inl e \<Rightarrow> Inl e
         | Inr rest' \<Rightarrow>
             Inr ((k, FloatTensor (map (\<lambda>i. fmul (xs ! i)
                                          (if draws n i < q then Finite 1 else Finite 0))
                                   [0 ..< length xs])) # rest'))
      else Inl RuntimeError)"
proof (cases "xs = [] \<or> (0 \<le> q \<and> q \<le> 1)")
  case True
  have b: "bernoulli (draws n) (full_like (FloatTensor xs) q)
           = Inr (FloatTensor (map (\<lambda>i. if draws n i < q then Finite 1 else Finite 0)
                                   [0 ..< length xs]))"
    using True by (simp only: bernoulli_full_like if_True)
  show ?thesis
    by (simp only: dropout_items.simps b sum.case tensor_mul_weight True if_True)
next
  case False
  have b: "bernoulli (draws n) (full_like (FloatTensor xs) q) = Inl RuntimeError"
    using False by (simp only: bernoulli_full_like if_False)
  show ?thesis
    by (simp only: dropout_items.simps b sum.case False if_False)
qed

lemma dropout_items_Cons_int:
  "dropout_items q draws n ((k, IntTensor xs) # rest) = Inl RuntimeError"
  by (simp only: dropout_items.simps bernoulli_full_like_int sum.case)

lemma dropout_items_error:
  "dropout_items q draws n p = Inl e \<Longrightarrow> e = RuntimeError"
proof (induction p arbitrary: n)
  case Nil
  then show ?case by simp
next
  case (Cons kv rest)
  obtain k v where kv: "kv = (k, v)" by (cases kv)
  show ?case
  proof (cases v)
    case (FloatTensor xs)
    with Cons kv show ?thesis
      by (simp add: dropout_items_Cons_float del: dropout_items.simps
          split: if_splits sum.splits)
  next
    case (IntTensor xs)
    with Cons kv show ?thesis by simp
  qed
qed

lemma dropout_items_maskable:
  "dropout_items q draws n p = Inr m \<Longrightarrow> \<forall>(k, v) \<in> set p. maskable q v"
proof (induction p arbitrary: n m)
  case Nil
  then show ?case by simp
next
  case (Cons kv rest)
  obtain k v where kv: "kv = (k, v)" by (cases kv)
  from Cons.prems kv obtain xs where v: "v = FloatTensor xs"
    by (cases v) simp_all
  have step: "dropout_items q draws n ((k, FloatTensor xs) # rest) = Inr m"
    using Cons.prems kv v by simp
  have ok: "xs = [] \<or> (0 \<le> q \<and> q \<le> 1)"
  proof (rule ccontr)
    assume "\<not> (xs = [] \<or> (0 \<le> q \<and> q \<le> 1))"
    then have "dropout_items q draws n ((k, FloatTensor xs) # rest) = Inl RuntimeError"
      by (simp only: dropout_items_Cons_float if_False)
    with step show False by simp
  qed
  have "\<exists>rest'. dropout_items q draws (Suc n) rest = Inr rest'"
  proof (cases "dropout_items q draws (Suc n) rest")
    case (Inl e)
    then have "dropout_items q draws n ((k, FloatTensor xs) # rest) = Inl e"
      using ok by (simp only: dropout_items_Cons_float if_True sum.case)
    with step show ?thesis by simp
  next
    case (Inr rest')
    then show ?thesis by blast
  qed
  then obtain rest' where "dropout_items q draws (Suc n) rest = Inr rest'" ..
  then have "\<forall>(k, v) \<in> set rest. maskable q v" by (rule Cons.IH)
  moreover have "maskable q v" using v ok by (simp add: maskable_def)
  ultimately show ?case using kv by simp
qed

lemma maskable_dropout_items:
  "\<forall>(k, v) \<in> set p. maskable q v \<Longrightarrow> \<exists>m. dropout_items q draws n p = Inr m"
proof (induction p arbitrary: n)
  case Nil
  then show ?case by simp
next
  case (Cons kv rest)
  obtain k v where kv: "kv = (k, v)" by (cases kv)
  from Cons.prems kv obtain xs where v: "v = FloatTensor xs"
    and ok: "xs = [] \<or> (0 \<le> q \<and> q \<le> 1)"
    by (auto simp: maskable_def)
  from Cons.prems have "\<forall>(k, v) \<in> set rest. maskable q v" by simp
  then obtain rest' where r: "dropout_items q draws (Suc n) rest = Inr rest'"
    using Cons.IH by blast
  have "\<exists>m. dropout_items q draws n ((k, FloatTensor xs) # rest) = Inr m"
    using ok by (simp only: dropout_items_Cons_float if_True r sum.case) blast
  then show ?case using kv v by simp
qed

lemma dropout_items_result:
  "dropout_items q draws n p = Inr m \<Longrightarrow>
   map fst m = map fst p \<and>
   (\<forall>j < length p. \<exists>xs ys.
      snd (p ! j) = FloatTensor xs \<and> snd (m ! j) = FloatTensor ys \<and> length ys = length xs \<and>
      (\<forall>i < length xs.
         ys ! i = fmul (xs ! i) (if draws (n + j) i < q then Finite 1 else Finite 0)))"
proof (induction p arbitrary: n m)
  case Nil
  then show ?case by simp
next
  case (Cons kv rest)
  obtain k v where kv: "kv = (k, v)" by (cases kv)
  from Cons.prems kv obtain xs where v: "v = FloatTensor xs"
    by (cases v) simp_all
  let ?v' = "FloatTensor (map (\<lambda>i. fmul (xs ! i) (if draws n i < q then Finite 1 else Finite 0))
                            [0 ..< length xs])"
  have step: "dropout_items q draws n ((k, FloatTensor xs) # rest) = Inr m"
    using Cons.prems kv v by simp
  have "\<forall>(k, v) \<in> set (kv # rest). maskable q v"
    using Cons.prems by (rule dropout_items_maskable)
  then have ok: "xs = [] \<or> (0 \<le> q \<and> q \<le> 1)"
    using kv v by (simp add: maskable_def)
  obtain rest' where r: "dropout_items q draws (Suc n) rest = Inr rest'"
  proof (cases "dropout_items q draws (Suc n) rest")
    case (Inl e)
    then have "dropout_items q draws n ((k, FloatTensor xs) # rest) = Inl e"
      using ok by (simp only: dropout_items_Cons_float if_True sum.case)
    with step show ?thesis by simp
  next
    case (Inr rest')
    then show ?thesis by (rule that)
  qed
  have "dropout_items q draws n ((k, FloatTensor xs) # rest) = Inr ((k, ?v') # rest')"
    using ok by (simp only: dropout_items_Cons_float if_True r sum.case)
  with step have m: "m = (k, ?v') # rest'" by simp
  note ih = Cons.IH [OF r]
  have keys: "map fst m = map fst (kv # rest)"
    using ih m kv by simp
  have elems: "\<exists>xs ys.
      snd ((kv # rest) ! j) = FloatTensor xs \<and> snd (m ! j) = FloatTensor ys \<and>
      length ys = length xs \<and>
      (\<forall>i < length xs.
         ys ! i = fmul (xs ! i) (if draws (n + j) i < q then Finite 1 else Finite 0))"
    if "j < length (kv # rest)" for j
  proof (cases j)
    case 0
    then show ?thesis
      using v m kv by simp
  next
    case (Suc j')
    then have "j' < length rest" using that by simp
    with ih have "\<exists>xs ys.
      snd (rest ! j') = FloatTensor xs \<and> snd (rest' ! j') = FloatTensor ys \<and>
      length ys = length xs \<and>
      (\<forall>i < length xs.
         ys ! i = fmul (xs ! i) (if draws (Suc n + j') i < q then Finite 1 else Finite 0))"
      by blast
    then show ?thesis
      using Suc m by simp
  qed
  show ?case
  proof (intro conjI allI impI)
    show "map fst m = map fst (kv # rest)" by (rule keys)
  next
    fix j assume "j < length (kv # rest)"
    then show "\<exists>xs ys.
      snd ((kv # rest) ! j) = FloatTensor xs \<and> snd (m ! j) = FloatTensor ys \<and>
      length ys = length xs \<and>
      (\<forall>i < length xs.
         ys ! i = fmul (xs ! i) (if draws (n + j) i < q then Finite 1 else Finite 0))"
      by (rule elems)
  qed
qed

lemma round_message_eq:
  assumes "parameter super_sent_data = Some p"
  shows "round_message uniform self super_sent_data =
           (case dropout_items (1 - dropout_rate self) uniform 0 p of
              Inl e \<Rightarrow> Inl e
            | Inr masked \<Rightarrow>
                Inr (super_sent_data\<lparr>parameter := Some masked,
                                     dataset_size := Some (trainer_dataset_size self)\<rparr>))"
  using assms
  by (simp add: round_message_def FedDropoutAvgWorker_get_sent_data_def
      FedAVGWorker_get_sent_data_def aggretation_message_def Let_def split: sum.splits)

lemma get_sent_data_clears_flag:
  "fst (FedDropoutAvgWorker_get_sent_data uniform self super_sent_data)
     = self\<lparr>send_parameter_diff := False\<rparr>"
  by (simp add: FedDropoutAvgWorker_get_sent_data_def Let_def split: option.splits sum.splits)

text \<open>
  C1, as the code has it. The dropout worker clears \<^verbatim>\<open>_send_parameter_diff\<close>, so
  \<^verbatim>\<open>_aggretation\<close> takes no difference to the cached parameters: the round message
  keeps the newly trained parameters under \<^verbatim>\<open>"parameter"\<close>, with
  \<^verbatim>\<open>dataset_size\<close> added and every other entry as \<^verbatim>\<open>super()._get_sent_data()\<close>
  returned it. Keys, their order and the shapes are unchanged, and every element is
  multiplied by its own 0/1 weight: it is kept when its uniform draw from \<open>[0, 1)\<close> is
  below \<open>1 - dropout_rate\<close> and dropped otherwise, that is, with the configured
  dropout probability. A dropped element is 0, or \<^verbatim>\<open>nan\<close> when it was infinite or
  \<^verbatim>\<open>nan\<close>. There is a message exactly when every tensor is a floating-point one and
  the rate lies in \<open>[0, 1]\<close> or the tensors have no element; otherwise
  \<^verbatim>\<open>torch.bernoulli\<close> raises \<^verbatim>\<open>RuntimeError\<close>.
\<close>

theorem dropout_worker_sends_masked_parameters:
  assumes "parameter super_sent_data = Some p"
  shows "fst (FedDropoutAvgWorker_get_sent_data uniform self super_sent_data)
           = self\<lparr>send_parameter_diff := False\<rparr> \<and>
         ((\<forall>(k, v) \<in> set p. maskable (1 - dropout_rate self) v) \<longrightarrow>
            (\<exists>masked.
               round_message uniform self super_sent_data
                 = Inr (super_sent_data\<lparr>parameter := Some masked,
                                        dataset_size := Some (trainer_dataset_size self)\<rparr>) \<and>
               map fst masked = map fst p \<and>
               (\<forall>j < length p. \<exists>xs ys.
                  snd (p ! j) = FloatTensor xs \<and> snd (masked ! j) = FloatTensor ys \<and>
                  length ys = length xs \<and>
                  (\<forall>i < length xs.
                     (uniform j i < 1 - dropout_rate self \<longrightarrow> ys ! i = xs ! i) \<and>
                     (\<not> uniform j i < 1 - dropout_rate self \<longrightarrow>
                        ys ! i = (case xs ! i of Finite a \<Rightarrow> Finite 0 | _ \<Rightarrow> NaN)))))) \<and>
         (\<not> (\<forall>(k, v) \<in> set p. maskable (1 - dropout_rate self) v) \<longrightarrow>
            round_message uniform self super_sent_data = Inl RuntimeError)"
proof (intro conjI impI)
  show "fst (FedDropoutAvgWorker_get_sent_data uniform self super_sent_data)
           = self\<lparr>send_parameter_diff := False\<rparr>"
    by (rule get_sent_data_clears_flag)
next
  assume ok: "\<forall>(k, v) \<in> set p. maskable (1 - dropout_rate self) v"
  then obtain masked where d: "dropout_items (1 - dropout_rate self) uniform 0 p = Inr masked"
    using maskable_dropout_items by blast
  have msg: "round_message uniform self super_sent_data
                 = Inr (super_sent_data\<lparr>parameter := Some masked,
                                        dataset_size := Some (trainer_dataset_size self)\<rparr>)"
    by (simp add: round_message_eq [OF assms] d)
  note res = dropout_items_result [OF d]
  have keys: "map fst masked = map fst p"
    using res by (rule conjunct1)
  have elems: "\<forall>j < length p. \<exists>xs ys.
                  snd (p ! j) = FloatTensor xs \<and> snd (masked ! j) = FloatTensor ys \<and>
                  length ys = length xs \<and>
                  (\<forall>i < length xs.
                     (uniform j i < 1 - dropout_rate self \<longrightarrow> ys ! i = xs ! i) \<and>
                     (\<not> uniform j i < 1 - dropout_rate self \<longrightarrow>
                        ys ! i = (case xs ! i of Finite a \<Rightarrow> Finite 0 | _ \<Rightarrow> NaN)))"
  proof (intro allI impI)
    fix j assume "j < length p"
    with res obtain xs ys where x: "snd (p ! j) = FloatTensor xs"
      and y: "snd (masked ! j) = FloatTensor ys" and l: "length ys = length xs"
      and e: "\<forall>i < length xs. ys ! i =
                fmul (xs ! i) (if uniform (0 + j) i < 1 - dropout_rate self then Finite 1 else Finite 0)"
      by blast
    have "\<forall>i < length xs.
            (uniform j i < 1 - dropout_rate self \<longrightarrow> ys ! i = xs ! i) \<and>
            (\<not> uniform j i < 1 - dropout_rate self \<longrightarrow>
               ys ! i = (case xs ! i of Finite a \<Rightarrow> Finite 0 | _ \<Rightarrow> NaN))"
      using e by (simp add: fmul_one fmul_zero)
    with x y l show "\<exists>xs ys.
                  snd (p ! j) = FloatTensor xs \<and> snd (masked ! j) = FloatTensor ys \<and>
                  length ys = length xs \<and>
                  (\<forall>i < length xs.
                     (uniform j i < 1 - dropout_rate self \<longrightarrow> ys ! i = xs ! i) \<and>
                     (\<not> uniform j i < 1 - dropout_rate self \<longrightarrow>
                        ys ! i = (case xs ! i of Finite a \<Rightarrow> Finite 0 | _ \<Rightarrow> NaN)))"
      by (intro exI [of _ xs] exI [of _ ys] conjI)
  qed
  from msg keys elems
  show "\<exists>masked.
               round_message uniform self super_sent_data
                 = Inr (super_sent_data\<lparr>parameter := Some masked,
                                        dataset_size := Some (trainer_dataset_size self)\<rparr>) \<and>
               map fst masked = map fst p \<and>
               (\<forall>j < length p. \<exists>xs ys.
                  snd (p ! j) = FloatTensor xs \<and> snd (masked ! j) = FloatTensor ys \<and>
                  length ys = length xs \<and>
                  (\<forall>i < length xs.
                     (uniform j i < 1 - dropout_rate self \<longrightarrow> ys ! i = xs ! i) \<and>
                     (\<not> uniform j i < 1 - dropout_rate self \<longrightarrow>
                        ys ! i = (case xs ! i of Finite a \<Rightarrow> Finite 0 | _ \<Rightarrow> NaN))))"
    by (intro exI [of _ masked] conjI)
next
  assume bad: "\<not> (\<forall>(k, v) \<in> set p. maskable (1 - dropout_rate self) v)"
  show "round_message uniform self super_sent_data = Inl RuntimeError"
  proof (cases "dropout_items (1 - dropout_rate self) uniform 0 p")
    case (Inl e)
    then have "e = RuntimeError" by (rule dropout_items_error)
    with Inl show ?thesis by (simp add: round_message_eq [OF assms])
  next
    case (Inr masked)
    then have "\<forall>(k, v) \<in> set p. maskable (1 - dropout_rate self) v"
      by (rule dropout_items_maskable)
    with bad show ?thesis by contradiction
  qed
qed

theorem dropout_worker_sends_masked_parameters_witness:
  "(\<exists>masked ys.
      round_message draws_first_low
        \<lparr>worker_id = 0, round_num = 1, send_parameter_diff = True, private_stopped = False,
         trainer_parameters = [(''w'', FloatTensor [Finite 3, Finite 5])],
         trainer_dataset_size = 10,
         model_cache = [(''w'', FloatTensor [Finite 1, Finite 1])], dropout_rate = 1 / 2\<rparr>
        \<lparr>parameter = Some [(''w'', FloatTensor [Finite 3, Finite 5])], parameter_diff = None,
         dataset_size = None, end_training = None\<rparr>
      = Inr \<lparr>parameter = Some masked, parameter_diff = None,
             dataset_size = Some 10, end_training = None\<rparr> \<and>
      snd (masked ! 0) = FloatTensor ys \<and> ys ! 0 = Finite 3 \<and> ys ! 1 = Finite 0) \<and>
   round_message draws_first_low
     \<lparr>worker_id = 0, round_num = 1, send_parameter_diff = True, private_stopped = False,
      trainer_parameters = [(''w'', FloatTensor [Finite 3, Finite 5])],
      trainer_dataset_size = 10,
      model_cache = [(''w'', FloatTensor [Finite 1, Finite 1])], dropout_rate = 3 / 2\<rparr>
     \<lparr>parameter = Some [(''w'', FloatTensor [Finite 3, Finite 5])], parameter_diff = None,
      dataset_size = None, end_training = None\<rparr>
   = Inl RuntimeError"
proof -
  let ?p = "[(''w'', FloatTensor [Finite 3, Finite 5])]"
  let ?w = "\<lparr>worker_id = 0, round_num = 1, send_parameter_diff = True, private_stopped = False,
         trainer_parameters = ?p, trainer_dataset_size = 10,
         model_cache = [(''w'', FloatTensor [Finite 1, Finite 1])], dropout_rate = 1 / 2\<rparr>"
  let ?bad = "\<lparr>worker_id = 0, round_num = 1, send_parameter_diff = True, private_stopped = False,
         trainer_parameters = ?p, trainer_dataset_size = 10,
         model_cache = [(''w'', FloatTensor [Finite 1, Finite 1])], dropout_rate = 3 / 2\<rparr>"
  let ?s = "\<lparr>parameter = Some ?p, parameter_diff = None,
         dataset_size = None, end_training = None\<rparr>"
  have h: "parameter ?s = Some ?p" by simp
  have ok: "\<forall>(k, v) \<in> set ?p. maskable (1 - dropout_rate ?w) v"
    by (simp add: maskable_def)
  have bad: "\<not> (\<forall>(k, v) \<in> set ?p. maskable (1 - dropout_rate ?bad) v)"
    by (simp add: maskable_def)
  have first: "\<exists>masked ys.
      round_message draws_first_low ?w ?s
      = Inr \<lparr>parameter = Some masked, parameter_diff = None,
             dataset_size = Some 10, end_training = None\<rparr> \<and>
      snd (masked ! 0) = FloatTensor ys \<and> ys ! 0 = Finite 3 \<and> ys ! 1 = Finite 0"
    using dropout_worker_sends_masked_parameters
            [OF h, of draws_first_low ?w, THEN conjunct2, THEN conjunct1, THEN mp, OF ok]
    apply (elim exE conjE)
    subgoal premises q for masked
      using q(3) [THEN spec, of 0]
      apply simp
      apply (elim exE conjE)
      subgoal premises r for ys
        using q(1) r(1) r(2) r(3) [THEN spec, of 0] r(3) [THEN spec, of 1]
        by (auto simp: draws_first_low_def)
      done
    done
  have second: "round_message draws_first_low ?bad ?s = Inl RuntimeError"
    by (rule dropout_worker_sends_masked_parameters
               [OF h, of draws_first_low ?bad, THEN conjunct2, THEN conjunct2, THEN mp, OF bad])
  from first second show ?thesis by (intro conjI)
qed

text \<open>
  C1 as the specification words it fails twice. On the difference: with cached
  parameters \<open>[1, 1]\<close>, trained parameters \<open>[3, 5]\<close>, a dropout rate of \<open>1/2\<close> and
  draws that keep every element, the worker sends \<open>[3, 5]\<close> under \<^verbatim>\<open>"parameter"\<close>,
  where the masked difference would be \<open>[2, 4]\<close> under \<^verbatim>\<open>"parameter_diff"\<close>. On the
  zeroing: a dropped infinite element is sent as \<^verbatim>\<open>nan\<close>.
\<close>

theorem dropout_worker_sends_diff_counterexample:
  "round_message draws_zero
     \<lparr>worker_id = 0, round_num = 1, send_parameter_diff = True, private_stopped = False,
      trainer_parameters = [(''w'', FloatTensor [Finite 3, Finite 5])], trainer_dataset_size = 10,
      model_cache = [(''w'', FloatTensor [Finite 1, Finite 1])], dropout_rate = 1 / 2\<rparr>
     \<lparr>parameter = Some [(''w'', FloatTensor [Finite 3, Finite 5])], parameter_diff = None,
      dataset_size = None, end_training = None\<rparr>
   = Inr \<lparr>parameter = Some [(''w'', FloatTensor [Finite 3, Finite 5])], parameter_diff = None,
          dataset_size = Some 10, end_training = None\<rparr> \<and>
   masked_diff_message draws_zero
     \<lparr>worker_id = 0, round_num = 1, send_parameter_diff = True, private_stopped = False,
      trainer_parameters = [(''w'', FloatTensor [Finite 3, Finite 5])], trainer_dataset_size = 10,
      model_cache = [(''w'', FloatTensor [Finite 1, Finite 1])], dropout_rate = 1 / 2\<rparr>
     \<lparr>parameter = Some [(''w'', FloatTensor [Finite 3, Finite 5])], parameter_diff = None,
      dataset_size = None, end_training = None\<rparr>
   = Inr \<lparr>parameter = None, parameter_diff = Some [(''w'', FloatTensor [Finite 2, Finite 4])],
          dataset_size = Some 10, end_training = None\<rparr> \<and>
   round_message draws_zero
     \<lparr>worker_id = 0, round_num = 1, send_parameter_diff = True, private_stopped = False,
      trainer_parameters = [(''w'', FloatTensor [Finite 3, Finite 5])], trainer_dataset_size = 10,
      model_cache = [(''w'', FloatTensor [Finite 1, Finite 1])], dropout_rate = 1 / 2\<rparr>
     \<lparr>parameter = Some [(''w'', FloatTensor [Finite 3, Finite 5])], parameter_diff = None,
      dataset_size = None, end_training = None\<rparr>
   \<noteq> masked_diff_message draws_zero
     \<lparr>worker_id = 0, round_num = 1, send_parameter_diff = True, private_stopped = False,
      trainer_parameters = [(''w'', FloatTensor [Finite 3, Finite 5])], trainer_dataset_size = 10,
      model_cache = [(''w'', FloatTensor [Finite 1, Finite 1])], dropout_rate = 1 / 2\<rparr>
     \<lparr>parameter = Some [(''w'', FloatTensor [Finite 3, Finite 5])], parameter_diff = None,
      dataset_size = None, end_training = None\<rparr> \<and>
   round_message draws_high
     \<lparr>worker_id = 0, round_num = 1, send_parameter_diff = True, private_stopped = False,
      trainer_parameters = [(''w'', FloatTensor [PosInf, Finite 5])], trainer_dataset_size = 10,
      model_cache = [(''w'', FloatTensor [Finite 1, Finite 1])], dropout_rate = 1 / 2\<rparr>
     \<lparr>parameter = Some [(''w'', FloatTensor [PosInf, Finite 5])], parameter_diff = None,
      dataset_size = None, end_training = None\<rparr>
   = Inr \<lparr>parameter = Some [(''w'', FloatTensor [NaN, Finite 0])], parameter_diff = None,
          dataset_size = Some 10, end_training = None\<rparr>"
  by (simp add: round_message_eq masked_diff_message_def get_parameter_diff_def
      dropout_items_Cons_float draws_zero_def draws_high_def del: dropout_items.simps(2))


section \<open>Properties of training.py\<close>

subsection \<open>Starting a task\<close>

lemma exec_units_calls:
  "exec_units wc task_id units process_pool effs =
     (process_pool\<lparr>scheduled := scheduled process_pool @ unit_calls wc task_id units\<rparr>,
      effs @ map PoolExec (unit_calls wc task_id units))"
proof (induction wc task_id units process_pool effs rule: exec_units.induct)
  case (1 wc task_id process_pool effs)
  show ?case by (simp add: unit_calls_def)
next
  case (2 wc task_id process_idx worker_configs rest process_pool effs)
  then show ?case by (simp add: unit_calls_def Let_def)
qed

lemma train_refused:
  "sysconf h = Some f \<Longrightarrow> f ''SC_OPEN_MAX'' \<le> 1024 \<Longrightarrow>
   train h sys cfg non_blocking pids = (sys, Inl RuntimeError)"
  by (simp add: train_def)

lemma train_started:
  assumes "sysconf h = None \<or> (\<exists>f. sysconf h = Some f \<and> 1024 < f ''SC_OPEN_MAX'')"
    and "topology (get_worker_config h cfg pids) = Some topo"
    and "worker_map (get_worker_config h cfg pids) = Some units"
  shows "train h sys cfg True pids =
           (sys\<lparr>tasks := (tasks sys)
                   (uuid4 h \<mapsto>
                      \<lparr>task_process_pool =
                         \<lparr>initargs = topo,
                          scheduled = unit_calls (get_worker_config h cfg pids) (Some (uuid4 h)) units\<rparr>,
                       practitioner_ids = pids, task_config = cfg\<rparr>),
                 effects := effects sys @
                   [SetEnviron ''CUDA_MODULE_LOADING'' ''LAZY'', ApplyGlobalConfig,
                    SetFileHandler (log_file cfg), GetWorkerConfig,
                    CreateDeviceLock, CreateProcessPool] @
                   map PoolExec (unit_calls (get_worker_config h cfg pids) (Some (uuid4 h)) units)\<rparr>,
            Inr (Some (uuid4 h)))"
    and "train h sys cfg False pids =
           (sys\<lparr>effects := effects sys @
                   [SetEnviron ''CUDA_MODULE_LOADING'' ''LAZY'', ApplyGlobalConfig,
                    SetFileHandler (log_file cfg), GetWorkerConfig,
                    CreateDeviceLock, CreateProcessPool] @
                   map PoolExec (unit_calls (get_worker_config h cfg pids) None units) @
                   [PoolStop]\<rparr>,
            Inr None)"
  using assms by (auto simp: train_def exec_units_calls Let_def)

text \<open>
  C8. When \<^verbatim>\<open>os.sysconf("SC_OPEN_MAX")\<close> is at most 1024, \<^verbatim>\<open>train\<close> raises
  \<^verbatim>\<open>RuntimeError\<close> and nothing has happened: the \<^verbatim>\<open>tasks\<close> dictionary and the
  actions are as before. Otherwise (and with the topology and the worker map in the
  worker configuration) a non-blocking call schedules the units, stores the task under
  a fresh identifier and returns the identifier without stopping the pool; a blocking
  call schedules the units, stops the pool, stores nothing and returns \<^verbatim>\<open>None\<close>.
\<close>

theorem train_checks_descriptor_limit_first:
  "(\<forall>f. sysconf h = Some f \<and> f ''SC_OPEN_MAX'' \<le> 1024 \<longrightarrow>
        train h sys cfg non_blocking pids = (sys, Inl RuntimeError)) \<and>
   ((sysconf h = None \<or> (\<exists>f. sysconf h = Some f \<and> 1024 < f ''SC_OPEN_MAX'')) \<and>
    topology (get_worker_config h cfg pids) = Some topo \<and>
    worker_map (get_worker_config h cfg pids) = Some units \<longrightarrow>
      train h sys cfg True pids =
        (sys\<lparr>tasks := (tasks sys)
                (uuid4 h \<mapsto>
                   \<lparr>task_process_pool =
                      \<lparr>initargs = topo,
                       scheduled = unit_calls (get_worker_config h cfg pids) (Some (uuid4 h)) units\<rparr>,
                    practitioner_ids = pids, task_config = cfg\<rparr>),
              effects := effects sys @
                [SetEnviron ''CUDA_MODULE_LOADING'' ''LAZY'', ApplyGlobalConfig,
                 SetFileHandler (log_file cfg), GetWorkerConfig,
                 CreateDeviceLock, CreateProcessPool] @
                map PoolExec (unit_calls (get_worker_config h cfg pids) (Some (uuid4 h)) units)\<rparr>,
         Inr (Some (uuid4 h))) \<and>
      train h sys cfg False pids =
        (sys\<lparr>effects := effects sys @
                [SetEnviron ''CUDA_MODULE_LOADING'' ''LAZY'', ApplyGlobalConfig,
                 SetFileHandler (log_file cfg), GetWorkerConfig,
                 CreateDeviceLock, CreateProcessPool] @
                map PoolExec (unit_calls (get_worker_config h cfg pids) None units) @
                [PoolStop]\<rparr>,
         Inr None))"
proof (intro conjI allI impI)
  fix f
  assume "sysconf h = Some f \<and> f ''SC_OPEN_MAX'' \<le> 1024"
  then show "train h sys cfg non_blocking pids = (sys, Inl RuntimeError)"
    by (simp add: train_refused)
next
  assume a: "(sysconf h = None \<or> (\<exists>f. sysconf h = Some f \<and> 1024 < f ''SC_OPEN_MAX'')) \<and>
    topology (get_worker_config h cfg pids) = Some topo \<and>
    worker_map (get_worker_config h cfg pids) = Some units"
  then show "train h sys cfg True pids =
        (sys\<lparr>tasks := (tasks sys)
                (uuid4 h \<mapsto>
                   \<lparr>task_process_pool =
                      \<lparr>initargs = topo,
                       scheduled = unit_calls (get_worker_config h cfg pids) (Some (uuid4 h)) units\<rparr>,
                    practitioner_ids = pids, task_config = cfg\<rparr>),
              effects := effects sys @
                [SetEnviron ''CUDA_MODULE_LOADING'' ''LAZY'', ApplyGlobalConfig,
                 SetFileHandler (log_file cfg), GetWorkerConfig,
                 CreateDeviceLock, CreateProcessPool] @
                map PoolExec (unit_calls (get_worker_config h cfg pids) (Some (uuid4 h)) units)\<rparr>,
         Inr (Some (uuid4 h)))"
    by (intro train_started(1)) simp_all
  from a show "train h sys cfg False pids =
        (sys\<lparr>effects := effects sys @
                [SetEnviron ''CUDA_MODULE_LOADING'' ''LAZY'', ApplyGlobalConfig,
                 SetFileHandler (log_file cfg), GetWorkerConfig,
                 CreateDeviceLock, CreateProcessPool] @
                map PoolExec (unit_calls (get_worker_config h cfg pids) None units) @
                [PoolStop]\<rparr>,
         Inr None)"
    by (intro train_started(2)) simp_all
qed

theorem train_checks_descriptor_limit_first_witness:
  "train \<lparr>sysconf = Some (\<lambda>name. 1024), uuid4 = 42,
          get_worker_config = (\<lambda>cfg pids.
            \<lparr>topology = Some \<lparr>worker_num = 2, server_to_worker = no_messages,
                               worker_to_server = no_messages\<rparr>,
             worker_map = Some [(0, [0, 1])], server_config = Some ''server''\<rparr>),
          pool_wait = (\<lambda>pool timeout. False), pool_stop = (\<lambda>pool. [])\<rparr>
         \<lparr>tasks = Map.empty, effects = []\<rparr>
         \<lparr>log_file = ''log'', cfg_worker_number = 2\<rparr> True None
     = (\<lparr>tasks = Map.empty, effects = []\<rparr>, Inl RuntimeError) \<and>
   snd (train \<lparr>sysconf = Some (\<lambda>name. 4096), uuid4 = 42,
          get_worker_config = (\<lambda>cfg pids.
            \<lparr>topology = Some \<lparr>worker_num = 2, server_to_worker = no_messages,
                               worker_to_server = no_messages\<rparr>,
             worker_map = Some [(0, [0, 1])], server_config = Some ''server''\<rparr>),
          pool_wait = (\<lambda>pool timeout. False), pool_stop = (\<lambda>pool. [])\<rparr>
         \<lparr>tasks = Map.empty, effects = []\<rparr>
         \<lparr>log_file = ''log'', cfg_worker_number = 2\<rparr> True None)
     = Inr (Some 42) \<and>
   snd (train \<lparr>sysconf = Some (\<lambda>name. 4096), uuid4 = 42,
          get_worker_config = (\<lambda>cfg pids.
            \<lparr>topology = Some \<lparr>worker_num = 2, server_to_worker = no_messages,
                               worker_to_server = no_messages\<rparr>,
             worker_map = Some [(0, [0, 1])], server_config = Some ''server''\<rparr>),
          pool_wait = (\<lambda>pool timeout. False), pool_stop = (\<lambda>pool. [])\<rparr>
         \<lparr>tasks = Map.empty, effects = []\<rparr>
         \<lparr>log_file = ''log'', cfg_worker_number = 2\<rparr> False None)
     = Inr None"
proof -
  let ?wc = "\<lambda>(cfg :: config) (pids :: int set option).
            \<lparr>topology = Some \<lparr>worker_num = 2, server_to_worker = no_messages,
                               worker_to_server = no_messages\<rparr>,
             worker_map = Some [(0, [0, 1])], server_config = Some ''server''\<rparr>"
  let ?low = "\<lparr>sysconf = Some (\<lambda>name. 1024), uuid4 = 42, get_worker_config = ?wc,
          pool_wait = (\<lambda>pool timeout. False), pool_stop = (\<lambda>pool. [])\<rparr>"
  let ?high = "\<lparr>sysconf = Some (\<lambda>name. 4096), uuid4 = 42, get_worker_config = ?wc,
          pool_wait = (\<lambda>pool timeout. False), pool_stop = (\<lambda>pool. [])\<rparr>"
  let ?sys = "\<lparr>tasks = Map.empty, effects = []\<rparr>"
  let ?cfg = "\<lparr>log_file = ''log'', cfg_worker_number = 2\<rparr>"
  let ?topo = "\<lparr>worker_num = 2, server_to_worker = no_messages,
                worker_to_server = no_messages\<rparr> :: message option central_topology"
  have low: "sysconf ?low = Some (\<lambda>name. 1024) \<and> (\<lambda>name. 1024 :: int) ''SC_OPEN_MAX'' \<le> 1024"
    by simp
  have refused: "train ?low ?sys ?cfg True None = (?sys, Inl RuntimeError)"
    by (rule train_checks_descriptor_limit_first
               [of ?low ?sys ?cfg True None, THEN conjunct1, THEN spec, THEN mp, OF low])
  have high: "(sysconf ?high = None \<or> (\<exists>f. sysconf ?high = Some f \<and> 1024 < f ''SC_OPEN_MAX'')) \<and>
    topology (get_worker_config ?high ?cfg None) = Some ?topo \<and>
    worker_map (get_worker_config ?high ?cfg None) = Some [(0, [0, 1])]"
    by simp
  note started = train_checks_descriptor_limit_first
               [of ?high ?sys ?cfg True None ?topo "[(0, [0, 1])]", THEN conjunct2, THEN mp, OF high]
  have nb: "snd (train ?high ?sys ?cfg True None) = Inr (Some 42)"
    by (simp add: started [THEN conjunct1])
  have b: "snd (train ?high ?sys ?cfg False None) = Inr None"
    by (simp add: started [THEN conjunct2])
  from refused nb b show ?thesis by (intro conjI)
qed


subsection \<open>Collecting the result\<close>

lemma keys_Nil: "keys [] = {}"
  by (simp add: keys_def)

lemma keys_Cons: "keys ((k, v) # d) = insert k (keys d)"
  by (simp add: keys_def)

lemma keys_update: "keys (AList.update k v d) = insert k (keys d)"
  by (simp add: keys_def dom_update)

lemma keys_dict_ior: "keys (dict_ior d other) = keys d \<union> keys other"
proof -
  have "keys (fold (\<lambda>(k, v). AList.update k v) other d) = keys d \<union> keys other" for d
    by (induction other arbitrary: d) (auto simp: keys_update keys_Nil keys_Cons)
  then show ?thesis by (simp add: dict_ior_def)
qed

lemma distinct_dict_ior:
  "distinct (map fst d) \<Longrightarrow> distinct (map fst (dict_ior d other))"
proof -
  have "distinct (map fst d) \<Longrightarrow> distinct (map fst (fold (\<lambda>(k, v). AList.update k v) other d))" for d
    by (induction other arbitrary: d) (auto simp: distinct_update)
  then show "distinct (map fst d) \<Longrightarrow> ?thesis" by (simp add: dict_ior_def)
qed

lemma fold_dict_ior_keys:
  "keys (fold (\<lambda>result tmp_stats. dict_ior tmp_stats result) results d)
     = keys d \<union> (\<Union>r \<in> set results. keys r)"
  by (induction results arbitrary: d) (auto simp: keys_dict_ior)

lemma fold_dict_ior_distinct:
  "distinct (map fst d) \<Longrightarrow>
   distinct (map fst (fold (\<lambda>result tmp_stats. dict_ior tmp_stats result) results d))"
  by (induction results arbitrary: d) (auto simp: distinct_dict_ior)

lemma keys_merge_results: "keys (merge_results results) = (\<Union>r \<in> set results. keys r)"
  by (simp add: merge_results_def fold_dict_ior_keys keys_Nil)

lemma distinct_merge_results: "distinct (map fst (merge_results results))"
  by (simp add: merge_results_def fold_dict_ior_distinct)

lemma remap_workers_keys:
  "remap_workers zs tmp sv_round = Inr d \<Longrightarrow> keys d = keys sv_round \<union> fst ` set zs"
  by (induction zs tmp sv_round rule: remap_workers.induct)
     (auto simp: keys_update split: option.splits)

lemma remap_workers_lookup:
  "distinct (map fst zs) \<Longrightarrow> remap_workers zs tmp sv_round = Inr d \<Longrightarrow>
   map_of d p = (case map_of zs p of None \<Rightarrow> map_of sv_round p | Some w \<Rightarrow> map_of tmp w)"
proof (induction zs tmp sv_round rule: remap_workers.induct)
  case (1 tmp sv_round)
  then show ?case by simp
next
  case (2 practitioner_id w rest tmp sv_round)
  then obtain x where x: "map_of tmp w = Some x"
    and r: "remap_workers rest tmp (AList.update practitioner_id x sv_round) = Inr d"
    by (auto split: option.splits)
  have notin: "map_of rest practitioner_id = None"
    using "2.prems"(1) by (simp add: map_of_eq_None_iff)
  have "map_of d p = (case map_of rest p of
                        None \<Rightarrow> map_of (AList.update practitioner_id x sv_round) p
                      | Some w \<Rightarrow> map_of tmp w)"
    using "2.IH" [OF x _ r] "2.prems"(1) by simp
  then show ?case
    using x notin by (simp add: update_conv' split: option.splits)
qed

lemma remap_rounds_keys:
  "remap_rounds sorted_ids n table sv_dict = Inr table' \<Longrightarrow> keys table' = keys sv_dict \<union> keys table"
  by (induction sorted_ids n table sv_dict rule: remap_rounds.induct)
     (auto simp: keys_update keys_Cons keys_Nil split: sum.splits)

lemma remap_rounds_lookup:
  "distinct (map fst table) \<Longrightarrow> remap_rounds sorted_ids n table sv_dict = Inr table' \<Longrightarrow>
   (case map_of table r of
      None \<Rightarrow> map_of table' r = map_of sv_dict r
    | Some t \<Rightarrow> \<exists>t'. remap_workers (zip sorted_ids (map int [0 ..< n])) t [] = Inr t' \<and>
                     map_of table' r = Some t')"
proof (induction sorted_ids n table sv_dict rule: remap_rounds.induct)
  case (1 sorted_ids n sv_dict)
  then show ?case by simp
next
  case (2 sorted_ids n round_no tmp_sv_dict rest sv_dict)
  then obtain sv_round where w: "remap_workers (zip sorted_ids (map int [0 ..< n])) tmp_sv_dict [] = Inr sv_round"
    and r: "remap_rounds sorted_ids n rest (AList.update round_no sv_round sv_dict) = Inr table'"
    by (auto split: sum.splits)
  have notin: "map_of rest round_no = None"
    using "2.prems"(1) by (simp add: map_of_eq_None_iff)
  have ih: "case map_of rest r of
      None \<Rightarrow> map_of table' r = map_of (AList.update round_no sv_round sv_dict) r
    | Some t \<Rightarrow> \<exists>t'. remap_workers (zip sorted_ids (map int [0 ..< n])) t [] = Inr t' \<and>
                     map_of table' r = Some t'"
    using "2.IH" [OF w _ r] "2.prems"(1) by simp
  show ?case
  proof (cases "r = round_no")
    case True
    then show ?thesis using ih notin w by (simp add: update_conv')
  next
    case False
    then show ?thesis using ih by (simp add: update_conv' split: option.splits)
  qed
qed

lemma remap_stats_keys:
  "remap_stats sorted_ids n items stats = Inr stats' \<Longrightarrow> keys stats' = keys stats \<union> keys items"
  by (induction sorted_ids n items stats rule: remap_stats.induct)
     (auto simp: keys_update keys_Cons keys_Nil split: sum.splits stat_value.splits if_splits)

lemma remap_stats_lookup:
  "distinct (map fst items) \<Longrightarrow> remap_stats sorted_ids n items stats = Inr stats' \<Longrightarrow>
   (case map_of items k of
      None \<Rightarrow> map_of stats' k = map_of stats k
    | Some v \<Rightarrow>
        if k \<noteq> ''sv'' then map_of stats' k = Some v
        else \<exists>table table'. v = ShapleyTable table \<and>
               remap_rounds sorted_ids n table [] = Inr table' \<and>
               map_of stats' k = Some (ShapleyTable table'))"
proof (induction sorted_ids n items stats rule: remap_stats.induct)
  case (1 sorted_ids n stats)
  then show ?case by simp
next
  case (2 sorted_ids n k0 v rest stats)
  have notin: "map_of rest k0 = None"
    using "2.prems"(1) by (simp add: map_of_eq_None_iff)
  have d: "distinct (map fst rest)" using "2.prems"(1) by simp
  show ?case
  proof (cases "k0 \<noteq> ''sv''")
    case True
    then have r: "remap_stats sorted_ids n rest (AList.update k0 v stats) = Inr stats'"
      using "2.prems"(2) by simp
    from "2.IH"(1) [OF True d r] notin True show ?thesis
      by (cases "k = k0") (auto simp: update_conv' split: option.splits)
  next
    case False
    then obtain table table' where v: "v = ShapleyTable table"
      and t: "remap_rounds sorted_ids n table [] = Inr table'"
      and r: "remap_stats sorted_ids n rest (AList.update k0 (ShapleyTable table') stats) = Inr stats'"
      using "2.prems"(2) by (auto split: stat_value.splits sum.splits)
    from "2.IH"(2) [OF False v t d r] notin False v t show ?thesis
      by (cases "k = k0") (auto simp: update_conv' split: option.splits)
  qed
qed

lemma map_of_zip_position:
  "distinct xs \<Longrightarrow> i < length xs \<Longrightarrow> i < length ys \<Longrightarrow> map_of (zip xs ys) (xs ! i) = Some (ys ! i)"
proof (induction xs arbitrary: ys i)
  case Nil
  then show ?case by simp
next
  case (Cons x xs)
  then obtain y ys' where ys: "ys = y # ys'" by (cases ys) auto
  show ?case
  proof (cases i)
    case 0
    then show ?thesis using ys by simp
  next
    case (Suc j)
    then have "xs ! j \<noteq> x" using Cons.prems by auto
    then show ?thesis using Cons Suc ys by simp
  qed
qed

lemma map_of_dict_ior:
  "distinct (map fst other) \<Longrightarrow> map_of (dict_ior d other) = map_of d ++ map_of other"
proof -
  have "distinct (map fst other) \<Longrightarrow>
        map_of (fold (\<lambda>(k, v). AList.update k v) other d) = map_of d ++ map_of other" for d
  proof (induction other arbitrary: d)
    case Nil
    then show ?case by simp
  next
    case (Cons kv other)
    obtain k v where kv: "kv = (k, v)" by (cases kv)
    have notin: "map_of other k = None"
      using Cons.prems kv by (simp add: map_of_eq_None_iff)
    have "map_of (fold (\<lambda>(k, v). AList.update k v) other (AList.update k v d))
          = map_of (AList.update k v d) ++ map_of other"
      using Cons.IH Cons.prems by simp
    also have "\<dots> = map_of d ++ map_of (kv # other)"
      using notin by (auto simp: kv update_conv' map_add_def fun_eq_iff split: option.splits)
    finally have e: "map_of (fold (\<lambda>(k, v). AList.update k v) other (AList.update k v d))
                     = map_of d ++ map_of (kv # other)" .
    have step: "fold (\<lambda>(k, v). AList.update k v) (kv # other) d
                = fold (\<lambda>(k, v). AList.update k v) other (AList.update k v d)"
      by (simp add: kv)
    show ?case by (simp only: step e)
  qed
  then show "distinct (map fst other) \<Longrightarrow> ?thesis" by (simp add: dict_ior_def)
qed

lemma map_of_fold_dict_ior:
  "\<forall>r \<in> set results. distinct (map fst r) \<Longrightarrow>
   map_of (fold (\<lambda>result tmp_stats. dict_ior tmp_stats result) results d)
     = foldl (++) (map_of d) (map map_of results)"
  by (induction results arbitrary: d) (simp_all add: map_of_dict_ior)

lemma map_of_merge_results:
  "\<forall>r \<in> set results. distinct (map fst r) \<Longrightarrow>
   map_of (merge_results results) = foldl (++) Map.empty (map map_of results)"
  using map_of_fold_dict_ior [of results "[]"] by (simp add: merge_results_def)

lemma get_training_result_timeout:
  "tasks sys task_id = Some task \<Longrightarrow> \<not> pool_wait h (task_process_pool task) timeout \<Longrightarrow>
   get_training_result h sys task_id timeout = (sys, Inr None)"
  by (simp add: get_training_result_def)

lemma get_training_result_finished:
  assumes "tasks sys task_id = Some task" and "pool_wait h (task_process_pool task) timeout"
  shows "fst (get_training_result h sys task_id timeout)
           = sys\<lparr>tasks := (tasks sys)(task_id := None), effects := effects sys @ [PoolStop]\<rparr>"
    and "snd (get_training_result h sys task_id timeout) =
           (case practitioner_ids task of
              None \<Rightarrow> Inr (Some (merge_results (pool_stop h (task_process_pool task))))
            | Some ids \<Rightarrow>
                (case remap_stats (sorted_list_of_set ids) (cfg_worker_number (task_config task))
                        (merge_results (pool_stop h (task_process_pool task))) [] of
                   Inl e \<Rightarrow> Inl e
                 | Inr stats \<Rightarrow> Inr (Some stats)))"
  using assms
  by (simp_all add: get_training_result_def Let_def split: option.splits sum.splits)

lemma get_training_result_unknown:
  "tasks sys task_id = None \<Longrightarrow> get_training_result h sys task_id timeout = (sys, Inl KeyError)"
  by (simp add: get_training_result_def)

text \<open>
  C5. For a pending task, a poll whose \<^verbatim>\<open>wait\<close> times out returns \<^verbatim>\<open>None\<close>
  and leaves the module state as it was. A poll whose \<^verbatim>\<open>wait\<close> succeeds removes
  the task (every other task stays), stops the pool and never returns \<^verbatim>\<open>None\<close>;
  without practitioner ids its result is the units' dictionaries merged in order, a
  later unit overriding an earlier one on a shared key, and the keys of every returned
  dictionary are the union of the units' keys. Afterwards the task is unknown: any
  further poll raises \<^verbatim>\<open>KeyError\<close> and changes nothing.
\<close>

theorem get_training_result_polls_then_collects_once:
  assumes "tasks sys task_id = Some task"
  shows "(\<not> pool_wait h (task_process_pool task) timeout \<longrightarrow>
            get_training_result h sys task_id timeout = (sys, Inr None)) \<and>
         (pool_wait h (task_process_pool task) timeout \<longrightarrow>
            fst (get_training_result h sys task_id timeout)
              = sys\<lparr>tasks := (tasks sys)(task_id := None), effects := effects sys @ [PoolStop]\<rparr> \<and>
            snd (get_training_result h sys task_id timeout) \<noteq> Inr None \<and>
            (practitioner_ids task = None \<longrightarrow>
               snd (get_training_result h sys task_id timeout)
                 = Inr (Some (merge_results (pool_stop h (task_process_pool task))))) \<and>
            (practitioner_ids task = None \<and>
             (\<forall>result \<in> set (pool_stop h (task_process_pool task)). distinct (map fst result)) \<longrightarrow>
               map_of (merge_results (pool_stop h (task_process_pool task)))
                 = foldl (++) Map.empty (map map_of (pool_stop h (task_process_pool task)))) \<and>
            (\<forall>stats. snd (get_training_result h sys task_id timeout) = Inr (Some stats) \<longrightarrow>
               keys stats = (\<Union>result \<in> set (pool_stop h (task_process_pool task)). keys result)) \<and>
            (\<forall>h' timeout'.
               get_training_result h' (fst (get_training_result h sys task_id timeout)) task_id timeout'
                 = (fst (get_training_result h sys task_id timeout), Inl KeyError)))"
proof (intro conjI impI)
  assume "\<not> pool_wait h (task_process_pool task) timeout"
  then show "get_training_result h sys task_id timeout = (sys, Inr None)"
    using assms by (rule get_training_result_timeout [rotated])
next
  assume w: "pool_wait h (task_process_pool task) timeout"
  note f = get_training_result_finished [OF assms w]
  show s1: "fst (get_training_result h sys task_id timeout)
              = sys\<lparr>tasks := (tasks sys)(task_id := None), effects := effects sys @ [PoolStop]\<rparr>"
    by (rule f(1))
  show "snd (get_training_result h sys task_id timeout) \<noteq> Inr None"
    by (simp add: f(2) split: option.splits sum.splits)
  show "\<forall>stats. snd (get_training_result h sys task_id timeout) = Inr (Some stats) \<longrightarrow>
               keys stats = (\<Union>result \<in> set (pool_stop h (task_process_pool task)). keys result)"
  proof (intro allI impI)
    fix stats
    assume r: "snd (get_training_result h sys task_id timeout) = Inr (Some stats)"
    show "keys stats = (\<Union>result \<in> set (pool_stop h (task_process_pool task)). keys result)"
    proof (cases "practitioner_ids task")
      case None
      then have "stats = merge_results (pool_stop h (task_process_pool task))"
        using r by (simp add: f(2))
      then show ?thesis by (simp add: keys_merge_results)
    next
      case (Some ids)
      then have "remap_stats (sorted_list_of_set ids) (cfg_worker_number (task_config task))
                   (merge_results (pool_stop h (task_process_pool task))) [] = Inr stats"
        using r by (simp add: f(2) split: sum.splits)
      then show ?thesis
        by (simp add: remap_stats_keys keys_merge_results keys_Nil)
    qed
  qed
  show "\<forall>h' timeout'.
               get_training_result h' (fst (get_training_result h sys task_id timeout)) task_id timeout'
                 = (fst (get_training_result h sys task_id timeout), Inl KeyError)"
    by (simp add: s1 get_training_result_unknown)
next
  assume "pool_wait h (task_process_pool task) timeout" "practitioner_ids task = None"
  then show "snd (get_training_result h sys task_id timeout)
                 = Inr (Some (merge_results (pool_stop h (task_process_pool task))))"
    using get_training_result_finished(2) [OF assms] by simp
next
  assume "practitioner_ids task = None \<and>
          (\<forall>result \<in> set (pool_stop h (task_process_pool task)). distinct (map fst result))"
  then show "map_of (merge_results (pool_stop h (task_process_pool task)))
                 = foldl (++) Map.empty (map map_of (pool_stop h (task_process_pool task)))"
    by (simp add: map_of_merge_results)
qed

theorem get_training_result_polls_then_collects_once_witness:
  "get_training_result
     \<lparr>sysconf = None, uuid4 = 42,
      get_worker_config = (\<lambda>cfg pids. \<lparr>topology = None, worker_map = None, server_config = None\<rparr>),
      pool_wait = (\<lambda>pool timeout. False),
      pool_stop = (\<lambda>pool. [])\<rparr>
     \<lparr>tasks = [42 \<mapsto> \<lparr>task_process_pool =
                           \<lparr>initargs = \<lparr>worker_num = 3, server_to_worker = no_messages,
                                        worker_to_server = no_messages\<rparr>,
                            scheduled = []\<rparr>,
                        practitioner_ids = None,
                        task_config = \<lparr>log_file = ''log'', cfg_worker_number = 3\<rparr>\<rparr>],
      effects = []\<rparr> 42 (Some 1)
   = (\<lparr>tasks = [42 \<mapsto> \<lparr>task_process_pool =
                           \<lparr>initargs = \<lparr>worker_num = 3, server_to_worker = no_messages,
                                        worker_to_server = no_messages\<rparr>,
                            scheduled = []\<rparr>,
                        practitioner_ids = None,
                        task_config = \<lparr>log_file = ''log'', cfg_worker_number = 3\<rparr>\<rparr>],
      effects = []\<rparr>, Inr None) \<and>
   get_training_result
     \<lparr>sysconf = None, uuid4 = 42,
      get_worker_config = (\<lambda>cfg pids. \<lparr>topology = None, worker_map = None, server_config = None\<rparr>),
      pool_wait = (\<lambda>pool timeout. True),
      pool_stop = (\<lambda>pool. [[(''acc'', Metric (1 / 2))],
                              [(''acc'', Metric (9 / 10)), (''loss'', Metric (1 / 10))]])\<rparr>
     \<lparr>tasks = [42 \<mapsto> \<lparr>task_process_pool =
                           \<lparr>initargs = \<lparr>worker_num = 3, server_to_worker = no_messages,
                                        worker_to_server = no_messages\<rparr>,
                            scheduled = []\<rparr>,
                        practitioner_ids = None,
                        task_config = \<lparr>log_file = ''log'', cfg_worker_number = 3\<rparr>\<rparr>],
      effects = []\<rparr> 42 None
   = (\<lparr>tasks = Map.empty, effects = [PoolStop]\<rparr>,
      Inr (Some [(''acc'', Metric (9 / 10)), (''loss'', Metric (1 / 10))]))"
proof -
  let ?wc = "\<lambda>(cfg :: config) (pids :: int set option).
               \<lparr>topology = None, worker_map = None, server_config = None\<rparr>"
  let ?busy = "\<lparr>sysconf = None, uuid4 = 42, get_worker_config = ?wc,
      pool_wait = (\<lambda>pool timeout. False), pool_stop = (\<lambda>pool. [])\<rparr>"
  let ?done = "\<lparr>sysconf = None, uuid4 = 42, get_worker_config = ?wc,
      pool_wait = (\<lambda>pool timeout. True),
      pool_stop = (\<lambda>pool. [[(''acc'', Metric (1 / 2))],
                              [(''acc'', Metric (9 / 10)), (''loss'', Metric (1 / 10))]])\<rparr>"
  let ?task = "\<lparr>task_process_pool =
                           \<lparr>initargs = \<lparr>worker_num = 3, server_to_worker = no_messages,
                                        worker_to_server = no_messages\<rparr>,
                            scheduled = []\<rparr>,
                        practitioner_ids = None,
                        task_config = \<lparr>log_file = ''log'', cfg_worker_number = 3\<rparr>\<rparr>"
  let ?sys = "\<lparr>tasks = [42 \<mapsto> ?task], effects = []\<rparr>"
  have h: "tasks ?sys 42 = Some ?task" by simp
  have busy: "\<not> pool_wait ?busy (task_process_pool ?task) (Some 1)" by simp
  have ready: "pool_wait ?done (task_process_pool ?task) None" by simp
  have none: "practitioner_ids ?task = None" by simp
  have a: "get_training_result ?busy ?sys 42 (Some 1) = (?sys, Inr None)"
    by (rule get_training_result_polls_then_collects_once
               [OF h, of ?busy "Some 1", THEN conjunct1, THEN mp, OF busy])
  note collected = get_training_result_polls_then_collects_once
                     [OF h, of ?done None, THEN conjunct2, THEN mp, OF ready]
  have b1: "fst (get_training_result ?done ?sys 42 None)
            = ?sys\<lparr>tasks := (tasks ?sys)(42 := None), effects := effects ?sys @ [PoolStop]\<rparr>"
    by (rule collected [THEN conjunct1])
  have b2: "snd (get_training_result ?done ?sys 42 None)
            = Inr (Some (merge_results (pool_stop ?done (task_process_pool ?task))))"
    by (rule collected [THEN conjunct2, THEN conjunct2, THEN conjunct1, THEN mp, OF none])
  have b: "get_training_result ?done ?sys 42 None
           = (\<lparr>tasks = Map.empty, effects = [PoolStop]\<rparr>,
              Inr (Some [(''acc'', Metric (9 / 10)), (''loss'', Metric (1 / 10))]))"
    using b1 b2 by (simp add: prod_eq_iff merge_results_def dict_ior_def)
  from a b show ?thesis by (intro conjI)
qed

subsection \<open>Practitioner ids\<close>

lemma remapped_round:
  assumes "distinct sorted_ids"
    and "remap_workers (zip sorted_ids (map int [0 ..< n])) t [] = Inr t'"
  shows "keys t' = set (take n sorted_ids)"
    and "\<forall>i. i < length sorted_ids \<and> i < n \<longrightarrow> map_of t' (sorted_ids ! i) = map_of t (int i)"
proof -
  let ?zs = "zip sorted_ids (map int [0 ..< n])"
  have fst_zs: "map fst ?zs = take n sorted_ids"
    by (cases "n \<le> length sorted_ids") (simp_all add: map_fst_zip_take min_def)
  have d: "distinct (map fst ?zs)"
    using assms(1) by (simp add: fst_zs)
  have "keys t' = fst ` set ?zs"
    using remap_workers_keys [OF assms(2)] by (simp add: keys_Nil)
  also have "\<dots> = set (map fst ?zs)" by simp
  finally show "keys t' = set (take n sorted_ids)"
    by (simp only: fst_zs)
  show "\<forall>i. i < length sorted_ids \<and> i < n \<longrightarrow> map_of t' (sorted_ids ! i) = map_of t (int i)"
  proof (intro allI impI)
    fix i
    assume i: "i < length sorted_ids \<and> i < n"
    then have "map_of ?zs (sorted_ids ! i) = Some (map int [0 ..< n] ! i)"
      using assms(1) by (intro map_of_zip_position) simp_all
    then have z: "map_of ?zs (sorted_ids ! i) = Some (int i)"
      using i by simp
    show "map_of t' (sorted_ids ! i) = map_of t (int i)"
      using remap_workers_lookup [OF d assms(2), of "sorted_ids ! i"] z by simp
  qed
qed

text \<open>
  C2. When a poll of a task with practitioner ids returns a dictionary, every entry
  other than \<^verbatim>\<open>"sv"\<close> is the merged entry, unchanged. The \<^verbatim>\<open>"sv"\<close> entry keeps
  its rounds, and in every round the practitioner id at position \<open>i\<close> of the
  ascending list of practitioner ids carries the value of worker \<open>i\<close>, for every
  position below the number of ids and the worker number; no other key is present.
\<close>

theorem shapley_tables_remapped_to_practitioner_ids:
  assumes "tasks sys task_id = Some task"
    and "practitioner_ids task = Some ids"
    and "finite ids"
    and "get_training_result h sys task_id timeout = (sys', Inr (Some stats))"
  shows "(\<forall>k. k \<noteq> ''sv'' \<longrightarrow>
            map_of stats k = map_of (merge_results (pool_stop h (task_process_pool task))) k) \<and>
         (map_of (merge_results (pool_stop h (task_process_pool task))) ''sv'' = None \<longrightarrow>
            map_of stats ''sv'' = None) \<and>
         (\<forall>table.
            map_of (merge_results (pool_stop h (task_process_pool task))) ''sv''
              = Some (ShapleyTable table) \<and> distinct (map fst table) \<longrightarrow>
            (\<exists>table'.
               map_of stats ''sv'' = Some (ShapleyTable table') \<and>
               keys table' = keys table \<and>
               (\<forall>round_no t. map_of table round_no = Some t \<longrightarrow>
                  (\<exists>t'. map_of table' round_no = Some t' \<and>
                        keys t' = set (take (cfg_worker_number (task_config task))
                                         (sorted_list_of_set ids)) \<and>
                        (\<forall>i. i < card ids \<and> i < cfg_worker_number (task_config task) \<longrightarrow>
                           map_of t' (sorted_list_of_set ids ! i) = map_of t (int i))))))"
proof -
  let ?tmp = "merge_results (pool_stop h (task_process_pool task))"
  let ?ids = "sorted_list_of_set ids"
  let ?n = "cfg_worker_number (task_config task)"
  have w: "pool_wait h (task_process_pool task) timeout"
    using assms(1,4) by (auto simp: get_training_result_def split: if_splits)
  have r: "remap_stats ?ids ?n ?tmp [] = Inr stats"
    using get_training_result_finished(2) [OF assms(1) w] assms(2,4)
    by (simp split: sum.splits)
  have dt: "distinct (map fst ?tmp)" by (rule distinct_merge_results)
  have dids: "distinct ?ids" and lids: "length ?ids = card ids"
    using assms(3) by simp_all
  note look = remap_stats_lookup [OF dt r]
  have a: "\<forall>k. k \<noteq> ''sv'' \<longrightarrow> map_of stats k = map_of ?tmp k"
  proof (intro allI impI)
    fix k :: string
    assume "k \<noteq> ''sv''"
    then show "map_of stats k = map_of ?tmp k"
      using look [of k] by (simp split: option.splits)
  qed
  have b: "map_of ?tmp ''sv'' = None \<longrightarrow> map_of stats ''sv'' = None"
    using look [of "''sv''"] by (simp split: option.splits)
  have c: "\<forall>table. map_of ?tmp ''sv'' = Some (ShapleyTable table) \<and> distinct (map fst table) \<longrightarrow>
            (\<exists>table'.
               map_of stats ''sv'' = Some (ShapleyTable table') \<and>
               keys table' = keys table \<and>
               (\<forall>round_no t. map_of table round_no = Some t \<longrightarrow>
                  (\<exists>t'. map_of table' round_no = Some t' \<and>
                        keys t' = set (take ?n ?ids) \<and>
                        (\<forall>i. i < card ids \<and> i < ?n \<longrightarrow>
                           map_of t' (?ids ! i) = map_of t (int i)))))"
  proof (intro allI impI, elim conjE)
    fix table
    assume sv: "map_of ?tmp ''sv'' = Some (ShapleyTable table)"
      and dtab: "distinct (map fst table)"
    from look [of "''sv''"] sv obtain table'
      where rr: "remap_rounds ?ids ?n table [] = Inr table'"
        and st: "map_of stats ''sv'' = Some (ShapleyTable table')"
      by auto
    have k: "keys table' = keys table"
      using remap_rounds_keys [OF rr] by (simp add: keys_Nil)
    have rounds: "\<forall>round_no t. map_of table round_no = Some t \<longrightarrow>
                  (\<exists>t'. map_of table' round_no = Some t' \<and>
                        keys t' = set (take ?n ?ids) \<and>
                        (\<forall>i. i < card ids \<and> i < ?n \<longrightarrow>
                           map_of t' (?ids ! i) = map_of t (int i)))"
    proof (intro allI impI)
      fix round_no t
      assume "map_of table round_no = Some t"
      with remap_rounds_lookup [OF dtab rr, of round_no] obtain t'
        where rw: "remap_workers (zip ?ids (map int [0 ..< ?n])) t [] = Inr t'"
          and l: "map_of table' round_no = Some t'"
        by auto
      from remapped_round [OF dids rw] l lids
      show "\<exists>t'. map_of table' round_no = Some t' \<and>
                        keys t' = set (take ?n ?ids) \<and>
                        (\<forall>i. i < card ids \<and> i < ?n \<longrightarrow>
                           map_of t' (?ids ! i) = map_of t (int i))"
        by simp
    qed
    from st k rounds
    show "\<exists>table'.
               map_of stats ''sv'' = Some (ShapleyTable table') \<and>
               keys table' = keys table \<and>
               (\<forall>round_no t. map_of table round_no = Some t \<longrightarrow>
                  (\<exists>t'. map_of table' round_no = Some t' \<and>
                        keys t' = set (take ?n ?ids) \<and>
                        (\<forall>i. i < card ids \<and> i < ?n \<longrightarrow>
                           map_of t' (?ids ! i) = map_of t (int i))))"
      by (intro exI [of _ table'] conjI)
  qed
  from a b c show ?thesis by (intro conjI)
qed

theorem shapley_tables_remapped_to_practitioner_ids_witness:
  "get_training_result
     \<lparr>sysconf = None, uuid4 = 42,
      get_worker_config = (\<lambda>cfg pids. \<lparr>topology = None, worker_map = None, server_config = None\<rparr>),
      pool_wait = (\<lambda>pool timeout. True),
      pool_stop = (\<lambda>pool. [[(''sv'', ShapleyTable [(1, [(0, 1 / 2), (1, 1 / 4), (2, 1 / 8)])]),
                               (''acc'', Metric (9 / 10))]])\<rparr>
     \<lparr>tasks = [42 \<mapsto> \<lparr>task_process_pool =
                           \<lparr>initargs = \<lparr>worker_num = 3, server_to_worker = no_messages,
                                        worker_to_server = no_messages\<rparr>,
                            scheduled = []\<rparr>,
                        practitioner_ids = Some {7, 3, 9},
                        task_config = \<lparr>log_file = ''log'', cfg_worker_number = 3\<rparr>\<rparr>],
      effects = []\<rparr> 42 None
   = (\<lparr>tasks = Map.empty, effects = [PoolStop]\<rparr>,
      Inr (Some [(''sv'', ShapleyTable [(1, [(3, 1 / 2), (7, 1 / 4), (9, 1 / 8)])]),
                 (''acc'', Metric (9 / 10))])) \<and>
   (\<exists>table' t'.
      map_of [(''sv'', ShapleyTable [(1, [(3, 1 / 2), (7, 1 / 4), (9, 1 / 8)])]),
              (''acc'', Metric (9 / 10))] ''sv'' = Some (ShapleyTable table') \<and>
      map_of table' 1 = Some t' \<and>
      map_of t' 3 = Some (1 / 2) \<and> map_of t' 7 = Some (1 / 4) \<and> map_of t' 9 = Some (1 / 8))"
proof -
  let ?table = "[(1 :: nat, [(0 :: int, 1 / 2 :: real), (1, 1 / 4), (2, 1 / 8)])]"
  let ?h = "\<lparr>sysconf = None, uuid4 = 42,
      get_worker_config = (\<lambda>cfg pids. \<lparr>topology = None, worker_map = None, server_config = None\<rparr>),
      pool_wait = (\<lambda>pool timeout. True),
      pool_stop = (\<lambda>pool. [[(''sv'', ShapleyTable ?table), (''acc'', Metric (9 / 10))]])\<rparr>"
  let ?task = "\<lparr>task_process_pool =
                           \<lparr>initargs = \<lparr>worker_num = 3, server_to_worker = no_messages,
                                        worker_to_server = no_messages\<rparr>,
                            scheduled = []\<rparr>,
                        practitioner_ids = Some {7, 3, 9},
                        task_config = \<lparr>log_file = ''log'', cfg_worker_number = 3\<rparr>\<rparr>"
  let ?sys = "\<lparr>tasks = [42 \<mapsto> ?task], effects = []\<rparr>"
  let ?stats = "[(''sv'', ShapleyTable [(1, [(3, 1 / 2), (7, 1 / 4), (9, 1 / 8)])]),
                 (''acc'', Metric (9 / 10))]"
  have h1: "tasks ?sys 42 = Some ?task" by simp
  have h2: "practitioner_ids ?task = Some {7, 3, 9}" by simp
  have h3: "finite {7, 3, 9 :: int}" by simp
  have h4: "get_training_result ?h ?sys 42 None
            = (\<lparr>tasks = Map.empty, effects = [PoolStop]\<rparr>, Inr (Some ?stats))"
    by (simp add: get_training_result_def merge_results_def dict_ior_def Let_def upt_rec)
  have sv: "map_of (merge_results (pool_stop ?h (task_process_pool ?task))) ''sv''
              = Some (ShapleyTable ?table) \<and> distinct (map fst ?table)"
    by (simp add: merge_results_def dict_ior_def)
  note third = shapley_tables_remapped_to_practitioner_ids
                 [OF h1 h2 h3 h4, THEN conjunct2, THEN conjunct2, THEN spec, THEN mp, OF sv]
  have r1: "map_of ?table 1 = Some [(0 :: int, 1 / 2 :: real), (1, 1 / 4), (2, 1 / 8)]"
    by simp
  have ids: "sorted_list_of_set {7, 3, 9 :: int} = [3, 7, 9]" "card {7, 3, 9 :: int} = 3"
    by simp_all
  have remapped: "\<exists>table' t'. map_of ?stats ''sv'' = Some (ShapleyTable table') \<and>
      map_of table' 1 = Some t' \<and>
      map_of t' 3 = Some (1 / 2) \<and> map_of t' 7 = Some (1 / 4) \<and> map_of t' 9 = Some (1 / 8)"
    using third
    apply (elim exE conjE)
    subgoal premises p for table'
      using p(3) [THEN spec, THEN spec, THEN mp, OF r1]
      apply (elim exE conjE)
      subgoal premises q for t'
        using p(1) q(1) q(3) [THEN spec, of 0] q(3) [THEN spec, of 1] q(3) [THEN spec, of 2]
        by (auto simp: ids)
      done
    done
  from h4 remapped show ?thesis by (intro conjI)
qed

end
